theory Spec2Isabelle
  imports Main "HOL-Library.Log_Nat"
begin

section \<open>JavaScript numbers\<close>

text \<open>
  Prices, quantities and totals of the trade-in cart are whole numbers of pence and of
  cards. They are modelled as \<open>int\<close>: JavaScript computes sums and products of whole
  numbers exactly as long as they stay below \<open>2 ^ 53\<close>.

  The condition multipliers and the store-credit bonus are fractions (\<open>0.70\<close>,
  \<open>0.10\<close>), so the two places that multiply by them are modelled with the rounding
  of IEEE-754 binary64 written out: a number literal, a product and a sum are each rounded
  to the nearest number with a 53-bit significand, ties going to the even significand.
  Overflow, subnormal numbers, infinities and NaN are outside the model.
\<close>

definition round_half_even :: "rat \<Rightarrow> int" where
  "round_half_even x =
     (let f = \<lfloor>x\<rfloor>; r = x - of_int f
      in if r < 1 / 2 then f
         else if 1 / 2 < r then f + 1
         else if even f then f else f + 1)"

definition pow2 :: "int \<Rightarrow> rat" where
  "pow2 e = (if 0 \<le> e then 2 ^ nat e else 1 / 2 ^ nat (- e))"

text \<open>The binary exponent \<open>e\<close> of a non-zero number: \<open>2 ^ e \<le> |x| < 2 ^ (e + 1)\<close>.\<close>

definition binexp :: "rat \<Rightarrow> int" where
  "binexp x =
     (let a = \<bar>x\<bar>
      in if 1 \<le> a then bitlen \<lfloor>a\<rfloor> - 1
         else (let c = bitlen \<lfloor>1 / a\<rfloor>
               in if a * pow2 (c - 1) = 1 then 1 - c else - c))"

definition fl64 :: "rat \<Rightarrow> rat" where
  "fl64 x =
     (if x = 0 then 0
      else (let u = pow2 (binexp x - 52)
            in of_int (round_half_even (x / u)) * u))"

definition js_mul :: "rat \<Rightarrow> rat \<Rightarrow> rat" where
  "js_mul x y = fl64 (x * y)"

definition js_add :: "rat \<Rightarrow> rat \<Rightarrow> rat" where
  "js_add x y = fl64 (x + y)"

text \<open>\<open>Math.floor\<close> of a number that is not a whole number yet.\<close>

definition Math_floor :: "rat \<Rightarrow> int" where
  "Math_floor x = \<lfloor>x\<rfloor>"

section \<open>Configuration\<close>

record condition_data =
  code :: string
  cond_name :: string
  multiplier :: rat

record config =
  minimumValue :: int
  storeCreditBonus :: rat
  freeShippingThreshold :: int
  conditions :: "condition_data list"

text \<open>\<open>DEFAULT_CONFIG\<close>; each number literal denotes the nearest binary64 number.\<close>

definition DEFAULT_CONFIG :: config where
  "DEFAULT_CONFIG =
     \<lparr> minimumValue = 500,
       storeCreditBonus = fl64 (10 / 100),
       freeShippingThreshold = 5000,
       conditions =
         [ \<lparr> code = ''NM'', cond_name = ''Near Mint'', multiplier = fl64 (70 / 100) \<rparr>,
           \<lparr> code = ''LP'', cond_name = ''Lightly Played'', multiplier = fl64 (55 / 100) \<rparr>,
           \<lparr> code = ''MP'', cond_name = ''Moderately Played'', multiplier = fl64 (40 / 100) \<rparr>,
           \<lparr> code = ''HP'', cond_name = ''Heavily Played'', multiplier = fl64 (25 / 100) \<rparr>,
           \<lparr> code = ''DMG'', cond_name = ''Damaged'', multiplier = fl64 (10 / 100) \<rparr> ] \<rparr>"

section \<open>Cards, cart items, storage and the page\<close>

text \<open>
  A card as \<open>normalizeCardData\<close> returns it. String fields that JavaScript tests for
  truthiness are strings here, the empty string being the falsy one; \<open>card_prices\<close> is
  \<open>null\<close> (\<open>None\<close>) or an object whose entry for a condition is a number or missing.
\<close>

record card =
  card_cardId :: string
  card_name :: string
  card_setCode :: string
  card_cardNumber :: string
  card_variantType :: string
  card_fullCardNumber :: string
  card_rarity :: string
  card_imageUrl :: "string option"
  card_bestPriceGbp :: int
  card_prices :: "(string \<rightharpoonup> int) option"

text \<open>An entry of \<open>state.cart\<close>; the source's field \<open>set\<close> is \<open>set_label\<close> here.\<close>

record cart_item =
  cardId :: string
  name :: string
  set_label :: string
  setCode :: "string option"
  variantType :: "string option"
  imageUrl :: "string option"
  condition :: string
  quantity :: int
  pricePerItem :: int
  basePriceGbp :: int

text \<open>
  \<open>localStorage\<close>: the two keys the cart uses, on a storage that accepts every write
  (a write that throws is caught and logged by the script, and is outside the model).
  The text under \<open>tradeInCart\<close> is kept parsed: \<open>Items\<close> is the JSON of an array whose
  entries are cart items or \<open>null\<close>, \<open>Garbage\<close> any text on which \<open>JSON.parse\<close> or the
  \<open>filter\<close> call after it throws. \<open>None\<close> is a missing key, or the empty text, which
  the script treats alike.
\<close>

datatype json_payload = Garbage | Items "cart_item option list"

record storage =
  tradeInCart :: "json_payload option"
  tradeInCartVersion :: "string option"

text \<open>The body of the POST to \<open>/submissions\<close>.\<close>

record submission_item =
  cardPriceId :: string
  cardName :: string
  setName :: string
  sub_setCode :: "string option"
  variant :: "string option"
  conditionClaimed :: string
  sub_quantity :: int

record bank_details =
  bankAccountName :: string
  bankSortCode :: string
  bankAccountNumber :: string

record submission_data =
  email :: "string option"
  firstName :: string
  lastName :: string
  payoutType :: string
  shopifyCustomerId :: "string option"
  phone :: "string option"
  contactChannel :: "string option"
  items :: "submission_item list"
  bank :: "bank_details option"

text \<open>
  The part of the page the cart and the submission write to: the three form sections, the
  two payout totals, the minimum notice, the submit button, the error banner, the two
  inline field errors, the focused field, the loading and success panels. Amounts are
  kept in pence, before \<open>formatPrice\<close>.
\<close>

record success_summary =
  success_email :: "string option"
  success_items :: int
  success_total :: int
  success_payout :: string

record success_panel =
  submissionNumber :: string
  packingLink :: string
  shippingLink :: string
  trackingLink :: string
  summary :: "success_summary option"

record view =
  customerHidden :: bool
  payoutHidden :: bool
  submitHidden :: bool
  storeCreditShown :: int
  bankShown :: int
  minimumNoticeHidden :: bool
  minimumNoticeRemaining :: int
  submitDisabled :: bool
  errorBanner :: "string option"
  phoneErrorHidden :: bool
  channelErrorHidden :: bool
  focused :: "string option"
  loadingHidden :: bool
  formContentHidden :: bool
  successState :: "success_panel option"

text \<open>
  The state of the page's script: the cart, the storage, the page, and the bodies posted
  to the backend so far (latest first).
\<close>

record app_state =
  cart :: "cart_item list"
  store :: storage
  ui :: view
  posted :: "submission_data list"

section \<open>Cart management\<close>

definition CART_VERSION :: string where
  "CART_VERSION = ''2''"

definition JSON_stringify :: "cart_item list \<Rightarrow> json_payload" where
  "JSON_stringify c = Items (map Some c)"

text \<open>\<open>saveCart\<close>: the cart and the version tag are written together.\<close>

definition saveCart :: "app_state \<Rightarrow> app_state" where
  "saveCart s =
     s\<lparr>store := (store s)\<lparr>tradeInCart := Some (JSON_stringify (cart s)),
                            tradeInCartVersion := Some CART_VERSION\<rparr>\<rparr>"

definition isValid :: "cart_item option \<Rightarrow> bool" where
  "isValid item =
     (case item of
        None \<Rightarrow> False
      | Some i \<Rightarrow> cardId i \<noteq> [] \<and> name i \<noteq> [] \<and> condition i \<noteq> [])"

text \<open>
  \<open>loadCart\<close>. A version tag other than the current one (or none) drops the stored cart;
  a stored text that does not parse empties the cart in the \<open>catch\<close> branch; entries
  that fail \<open>isValid\<close> are filtered out and the cart is saved again when any was.
\<close>

definition loadCart :: "app_state \<Rightarrow> app_state" where
  "loadCart s =
     (let saved = tradeInCart (store s);
          savedVersion = tradeInCartVersion (store s)
      in if savedVersion \<noteq> Some CART_VERSION then
           s\<lparr>store := (store s)\<lparr>tradeInCart := None,
                                  tradeInCartVersion := Some CART_VERSION\<rparr>,
             cart := []\<rparr>
         else
           (case saved of
              None \<Rightarrow> s
            | Some Garbage \<Rightarrow> s\<lparr>cart := []\<rparr>
            | Some (Items parsedCart) \<Rightarrow>
                (let s1 = s\<lparr>cart := map the (filter isValid parsedCart)\<rparr>
                 in if length (cart s1) \<noteq> length parsedCart then saveCart s1 else s1)))"

text \<open>\<open>Array.prototype.findIndex\<close>: the first index whose element passes, or \<open>-1\<close>.\<close>

primrec findIndex :: "('a \<Rightarrow> bool) \<Rightarrow> 'a list \<Rightarrow> int" where
  "findIndex P [] = - 1"
| "findIndex P (x # xs) =
     (if P x then 0 else (let r = findIndex P xs in if r < 0 then - 1 else r + 1))"

record totals =
  itemCount :: int
  subtotal :: int
  storeCreditTotal :: int
  bankTotal :: int

definition getCartTotals :: "config \<Rightarrow> app_state \<Rightarrow> totals" where
  "getCartTotals cfg s =
     (let itemCount = foldl (\<lambda>sum item. sum + quantity item) 0 (cart s);
          subtotal = foldl (\<lambda>sum item. sum + pricePerItem item * quantity item) 0 (cart s);
          storeCreditTotal =
            Math_floor (js_mul (of_int subtotal) (js_add 1 (storeCreditBonus cfg)))
      in \<lparr> itemCount = itemCount, subtotal = subtotal,
           storeCreditTotal = storeCreditTotal, bankTotal = subtotal \<rparr>)"

text \<open>
  \<open>updateFormSections\<close>. The page's elements are taken to exist. \<open>renderCart\<close>,
  \<open>updateProgress\<close> and \<open>showToast\<close> write markup computed from the cart and touch
  neither the cart nor the storage; they are left out.
\<close>

definition updateFormSections :: "config \<Rightarrow> app_state \<Rightarrow> app_state" where
  "updateFormSections cfg s =
     (let hasItems = (0 < length (cart s));
          v1 = (ui s)\<lparr>customerHidden := \<not> hasItems, payoutHidden := \<not> hasItems,
                      submitHidden := \<not> hasItems\<rparr>
      in if hasItems then
           (let t = getCartTotals cfg s;
                v2 = v1\<lparr>storeCreditShown := storeCreditTotal t, bankShown := bankTotal t\<rparr>;
                meetsMinimum = (minimumValue cfg \<le> subtotal t);
                v3 = v2\<lparr>minimumNoticeHidden := meetsMinimum\<rparr>;
                v4 = (if \<not> meetsMinimum
                      then v3\<lparr>minimumNoticeRemaining := minimumValue cfg - subtotal t\<rparr>
                      else v3)
            in s\<lparr>ui := v4\<lparr>submitDisabled := \<not> meetsMinimum\<rparr>\<rparr>)
         else s\<lparr>ui := v1\<rparr>)"

definition clearCart :: "config \<Rightarrow> app_state \<Rightarrow> app_state" where
  "clearCart cfg s = updateFormSections cfg (saveCart (s\<lparr>cart := []\<rparr>))"

text \<open>
  The price \<open>addToCart\<close> gives a new entry: the card's own price for the condition when
  it has one, else the market price times the condition's multiplier, rounded down, and
  \<open>0\<close> when the condition is not in the table or the market price is \<open>0\<close>.
\<close>

definition resolvePrice :: "config \<Rightarrow> card \<Rightarrow> string \<Rightarrow> int" where
  "resolvePrice cfg c cond =
     (case (case card_prices c of None \<Rightarrow> None | Some ps \<Rightarrow> ps cond) of
        Some p \<Rightarrow> p
      | None \<Rightarrow>
          (case find (\<lambda>d. code d = cond) (conditions cfg) of
             None \<Rightarrow> 0
           | Some conditionData \<Rightarrow>
               if card_bestPriceGbp c \<noteq> 0
               then Math_floor (js_mul (of_int (card_bestPriceGbp c)) (multiplier conditionData))
               else 0))"

definition newItem :: "config \<Rightarrow> card \<Rightarrow> string \<Rightarrow> int \<Rightarrow> cart_item" where
  "newItem cfg c cond qty =
     \<lparr> cardId = card_cardId c,
       name = card_name c,
       set_label = (if card_fullCardNumber c \<noteq> [] then card_fullCardNumber c else card_setCode c),
       setCode = (if card_setCode c \<noteq> [] then Some (card_setCode c) else None),
       variantType = (if card_variantType c \<noteq> [] then Some (card_variantType c) else None),
       imageUrl = card_imageUrl c,
       condition = cond,
       quantity = qty,
       pricePerItem = resolvePrice cfg c cond,
       basePriceGbp = card_bestPriceGbp c \<rparr>"

definition addToCart :: "config \<Rightarrow> card \<Rightarrow> string \<Rightarrow> int \<Rightarrow> app_state \<Rightarrow> app_state" where
  "addToCart cfg c cond qty s =
     (let existingIndex =
            findIndex (\<lambda>item. cardId item = card_cardId c \<and> condition item = cond) (cart s);
          s1 = (if 0 \<le> existingIndex
                then s\<lparr>cart := (cart s)[nat existingIndex :=
                        ((cart s) ! nat existingIndex)
                          \<lparr>quantity := quantity ((cart s) ! nat existingIndex) + qty\<rparr>]\<rparr>
                else s\<lparr>cart := cart s @ [newItem cfg c cond qty]\<rparr>)
      in updateFormSections cfg (saveCart s1))"

text \<open>\<open>Array.prototype.splice(index, 1)\<close>: a negative index counts from the end.\<close>

definition splice1 :: "int \<Rightarrow> 'a list \<Rightarrow> 'a list" where
  "splice1 index xs =
     (let len = int (length xs);
          start = (if index < 0 then max (len + index) 0 else min index len)
      in take (nat start) xs @ drop (nat start + 1) xs)"

definition removeFromCart :: "config \<Rightarrow> int \<Rightarrow> app_state \<Rightarrow> app_state" where
  "removeFromCart cfg index s =
     updateFormSections cfg (saveCart (s\<lparr>cart := splice1 index (cart s)\<rparr>))"

text \<open>
  \<open>updateCartQuantity\<close>: \<open>state.cart[index]\<close> is \<open>undefined\<close> outside the array, and
  the function returns at once.
\<close>

definition updateCartQuantity :: "config \<Rightarrow> int \<Rightarrow> int \<Rightarrow> app_state \<Rightarrow> app_state" where
  "updateCartQuantity cfg index delta s =
     (if 0 \<le> index \<and> index < int (length (cart s)) then
        (let item = (cart s) ! nat index;
             s1 = s\<lparr>cart := (cart s)[nat index :=
                     item\<lparr>quantity := max 1 (quantity item + delta)\<rparr>]\<rparr>
         in updateFormSections cfg (saveCart s1))
      else s)"

text \<open>
  The quantity field of the condition dialog, the one place that knows the upper limit:
  the \<open>+\<close> button, the \<open>-\<close> button and the \<open>change\<close> handler (whose argument is
  \<open>None\<close> when \<open>parseInt\<close> gives \<open>NaN\<close>).
\<close>

definition modalQuantityIncrease :: "int \<Rightarrow> int" where
  "modalQuantityIncrease v = min 99 (v + 1)"

definition modalQuantityDecrease :: "int \<Rightarrow> int" where
  "modalQuantityDecrease v = max 1 (v - 1)"

definition modalQuantityChange :: "int option \<Rightarrow> int" where
  "modalQuantityChange v =
     max 1 (min 99 (case v of None \<Rightarrow> 1 | Some n \<Rightarrow> if n = 0 then 1 else n))"

section \<open>Submission\<close>

text \<open>
  Strings are lists of characters below \<open>256\<close>. Among them the pattern \<open>\s\<close> matches
  tab, line feed, vertical tab, form feed, carriage return, space and the no-break space;
  \<open>\d\<close> matches the ten ASCII digits.
\<close>

definition is_space :: "char \<Rightarrow> bool" where
  "is_space ch = ((of_char ch :: nat) \<in> {9, 10, 11, 12, 13, 32, 160})"

definition is_digit :: "char \<Rightarrow> bool" where
  "is_digit ch = (ch \<in> set ''0123456789'')"

definition trim :: "string \<Rightarrow> string" where
  "trim t = rev (dropWhile is_space (rev (dropWhile is_space t)))"

text \<open>\<open>/^\d{n}$/.test(t)\<close>\<close>

definition digits_exactly :: "nat \<Rightarrow> string \<Rightarrow> bool" where
  "digits_exactly n t = (length t = n \<and> list_all is_digit t)"

text \<open>
  The form as the shopper left it: the \<open>value\<close> of each named field, \<open>None\<close> where the
  page has no such field (for \<open>payoutType\<close>: no option checked).
\<close>

record form =
  form_email :: "string option"
  form_firstName :: "string option"
  form_lastName :: "string option"
  form_payoutType :: "string option"
  form_shopifyCustomerId :: "string option"
  form_bankAccountName :: "string option"
  form_bankSortCode :: "string option"
  form_bankAccountNumber :: "string option"
  form_phone :: "string option"
  form_contactChannel :: "string option"

text \<open>\<open>x?.value || ''\<close>, and the same with a string function applied first.\<close>

definition or_empty :: "string option \<Rightarrow> string" where
  "or_empty v = (case v of None \<Rightarrow> [] | Some t \<Rightarrow> t)"

text \<open>\<open>x || null\<close> on a field that is a string or \<open>null\<close>.\<close>

definition or_null :: "string option \<Rightarrow> string option" where
  "or_null v = (case v of None \<Rightarrow> None | Some t \<Rightarrow> if t \<noteq> [] then Some t else None)"

definition showError :: "string \<Rightarrow> app_state \<Rightarrow> app_state" where
  "showError message s = s\<lparr>ui := (ui s)\<lparr>errorBanner := Some message\<rparr>\<rparr>"

text \<open>
  What the transport did with a POST: \<open>fetch\<close> or the reading of the body threw, the
  backend answered with a status that is not ok (and perhaps a \<open>message\<close>), or it
  answered ok with a body that carries the submission number.
\<close>

datatype http_outcome =
    Threw string
  | Not_ok "string option"
  | Ok_201 string

text \<open>\<open>submitTradeIn\<close>: \<open>Inl\<close> is the message of the error thrown.\<close>

definition submitTradeIn :: "(submission_data \<Rightarrow> http_outcome) \<Rightarrow> submission_data \<Rightarrow> string + string" where
  "submitTradeIn backend formData =
     (case backend formData of
        Threw m \<Rightarrow> Inl m
      | Not_ok msg \<Rightarrow> Inl (if or_empty msg \<noteq> [] then or_empty msg else ''Submission failed'')
      | Ok_201 n \<Rightarrow> Inr n)"

definition apiBase :: string where
  "apiBase = ''/apps/trade-in''"

definition cartItems :: "cart_item list \<Rightarrow> submission_item list" where
  "cartItems c =
     map (\<lambda>item.
            \<lparr> cardPriceId = cardId item,
              cardName = name item,
              setName = (if set_label item \<noteq> [] then set_label item else ''Unknown''),
              sub_setCode = or_null (setCode item),
              variant = or_null (variantType item),
              conditionClaimed = condition item,
              sub_quantity = quantity item \<rparr>) c"

definition showLoading :: "app_state \<Rightarrow> app_state" where
  "showLoading s =
     s\<lparr>ui := (ui s)\<lparr>formContentHidden := True, customerHidden := True, payoutHidden := True,
                      submitHidden := True, loadingHidden := False\<rparr>\<rparr>"

definition successLinks :: "string \<Rightarrow> success_summary option \<Rightarrow> success_panel" where
  "successLinks n sm =
     \<lparr> submissionNumber = n,
       packingLink = apiBase @ ''/packing-slip/'' @ n,
       shippingLink = apiBase @ ''/shipping-instructions/'' @ n,
       trackingLink = ''/pages/trade-in-track?number='' @ n,
       summary = sm \<rparr>"

text \<open>
  The two branches after the request, shared by both versions of \<open>handleSubmit\<close>: on
  success the success panel is filled, \<open>clearCart\<close> runs and the stored cart is removed;
  in the \<open>catch\<close> branch the form comes back with the error banner.
\<close>

definition onSuccess :: "config \<Rightarrow> string \<Rightarrow> success_summary option \<Rightarrow> app_state \<Rightarrow> app_state" where
  "onSuccess cfg n sm s =
     (let s1 = s\<lparr>ui := (ui s)\<lparr>loadingHidden := True, successState := Some (successLinks n sm)\<rparr>\<rparr>;
          s2 = clearCart cfg s1
      in s2\<lparr>store := (store s2)\<lparr>tradeInCart := None\<rparr>\<rparr>)"

definition onFailure :: "config \<Rightarrow> string \<Rightarrow> app_state \<Rightarrow> app_state" where
  "onFailure cfg m s =
     (let s1 = s\<lparr>ui := (ui s)\<lparr>loadingHidden := True, formContentHidden := False\<rparr>\<rparr>
      in showError (if m \<noteq> [] then m else ''Submission failed. Please try again.'')
           (updateFormSections cfg s1))"

text \<open>
  \<open>handleSubmit\<close> of \<open>assets/trade-in-app.js\<close>: only the e-mail address is checked.
  \<open>formData\<close> is the object it passes to \<open>submitTradeIn\<close>.
\<close>

definition formData :: "form \<Rightarrow> cart_item list \<Rightarrow> submission_data" where
  "formData f c =
     \<lparr> email = form_email f,
       firstName = or_empty (form_firstName f),
       lastName = or_empty (form_lastName f),
       payoutType = (if or_empty (form_payoutType f) \<noteq> []
                     then or_empty (form_payoutType f) else ''STORE_CREDIT''),
       shopifyCustomerId = form_shopifyCustomerId f,
       phone = None,
       contactChannel = None,
       items = cartItems c,
       bank = None \<rparr>"

definition handleSubmit ::
  "config \<Rightarrow> (submission_data \<Rightarrow> http_outcome) \<Rightarrow> form \<Rightarrow> app_state \<Rightarrow> app_state" where
  "handleSubmit cfg backend f s =
     (let s0 = s\<lparr>ui := (ui s)\<lparr>errorBanner := None\<rparr>\<rparr>
      in if or_empty (form_email f) = [] then showError ''Please enter your email address'' s0
         else
           (let s1 = showLoading s0;
                s2 = s1\<lparr>posted := formData f (cart s1) # posted s1\<rparr>
            in case submitTradeIn backend (formData f (cart s1)) of
                 Inr n \<Rightarrow> onSuccess cfg n None s2
               | Inl m \<Rightarrow> onFailure cfg m s2))"

text \<open>
  \<open>handleSubmit\<close> of the fuller version of the script (the first of the two kept in
  \<open>unnamed/part_001\<close>), in three parts: the fields as read and normalised, the checks in
  the order of the source (each giving the message shown and the field focused), and the
  function itself. The lookup of the return address after a success and the copy button
  write to the success panel only and are left out.
\<close>

record fields =
  fld_email :: "string option"
  fld_firstName :: string
  fld_lastName :: string
  fld_payoutType :: string
  fld_shopifyCustomerId :: "string option"
  fld_bankAccountName :: string
  fld_bankSortCode :: string
  fld_bankAccountNumber :: string
  fld_phone :: string
  fld_contactChannel :: string

definition readForm :: "form \<Rightarrow> fields" where
  "readForm f =
     \<lparr> fld_email = form_email f,
       fld_firstName = or_empty (form_firstName f),
       fld_lastName = or_empty (form_lastName f),
       fld_payoutType = (if or_empty (form_payoutType f) \<noteq> []
                         then or_empty (form_payoutType f) else ''STORE_CREDIT''),
       fld_shopifyCustomerId = form_shopifyCustomerId f,
       fld_bankAccountName = or_empty (map_option trim (form_bankAccountName f)),
       fld_bankSortCode =
         or_empty (map_option (filter (\<lambda>ch. \<not> (ch = CHR ''-'' \<or> is_space ch)))
                     (form_bankSortCode f)),
       fld_bankAccountNumber =
         or_empty (map_option (filter (\<lambda>ch. \<not> is_space ch)) (form_bankAccountNumber f)),
       fld_phone = or_empty (map_option trim (form_phone f)),
       fld_contactChannel = or_empty (form_contactChannel f) \<rparr>"

datatype failure =
    Email_missing
  | Phone_missing
  | Channel_missing
  | Account_name_missing
  | Sort_code_invalid
  | Account_number_invalid

definition validate :: "fields \<Rightarrow> failure option" where
  "validate r =
     (if or_empty (fld_email r) = [] then Some Email_missing
      else if fld_phone r = [] then Some Phone_missing
      else if fld_contactChannel r = [] then Some Channel_missing
      else if fld_payoutType r = ''BANK'' then
        (if fld_bankAccountName r = [] then Some Account_name_missing
         else if fld_bankSortCode r = [] \<or> \<not> digits_exactly 6 (fld_bankSortCode r)
           then Some Sort_code_invalid
         else if fld_bankAccountNumber r = [] \<or> \<not> digits_exactly 8 (fld_bankAccountNumber r)
           then Some Account_number_invalid
         else None)
      else None)"

text \<open>What the page shows for a failed check, as the source writes it at each \<open>return\<close>.\<close>

fun reject :: "failure \<Rightarrow> app_state \<Rightarrow> app_state" where
  "reject Email_missing s = showError ''Please enter your email address'' s"
| "reject Phone_missing s =
     (let s1 = showError ''Please enter your phone number'' s
      in s1\<lparr>ui := (ui s1)\<lparr>phoneErrorHidden := False, focused := Some ''phone''\<rparr>\<rparr>)"
| "reject Channel_missing s =
     (let s1 = showError ''Please select a contact method''
                 (s\<lparr>ui := (ui s)\<lparr>phoneErrorHidden := True\<rparr>\<rparr>)
      in s1\<lparr>ui := (ui s1)\<lparr>channelErrorHidden := False, focused := Some ''contactChannel''\<rparr>\<rparr>)"
| "reject Account_name_missing s =
     (let s1 = showError ''Please enter the account holder name for bank transfer''
                 (s\<lparr>ui := (ui s)\<lparr>phoneErrorHidden := True, channelErrorHidden := True\<rparr>\<rparr>)
      in s1\<lparr>ui := (ui s1)\<lparr>focused := Some ''bankAccountName''\<rparr>\<rparr>)"
| "reject Sort_code_invalid s =
     (let s1 = showError ''Please enter a valid 6-digit sort code (e.g. 12-34-56)''
                 (s\<lparr>ui := (ui s)\<lparr>phoneErrorHidden := True, channelErrorHidden := True\<rparr>\<rparr>)
      in s1\<lparr>ui := (ui s1)\<lparr>focused := Some ''bankSortCode''\<rparr>\<rparr>)"
| "reject Account_number_invalid s =
     (let s1 = showError ''Please enter a valid 8-digit account number''
                 (s\<lparr>ui := (ui s)\<lparr>phoneErrorHidden := True, channelErrorHidden := True\<rparr>\<rparr>)
      in s1\<lparr>ui := (ui s1)\<lparr>focused := Some ''bankAccountNumber''\<rparr>\<rparr>)"

definition submissionData :: "fields \<Rightarrow> cart_item list \<Rightarrow> submission_data" where
  "submissionData r c =
     \<lparr> email = fld_email r,
       firstName = fld_firstName r,
       lastName = fld_lastName r,
       payoutType = fld_payoutType r,
       shopifyCustomerId = fld_shopifyCustomerId r,
       phone = Some (fld_phone r),
       contactChannel = Some (fld_contactChannel r),
       items = cartItems c,
       bank = (if fld_payoutType r = ''BANK''
               then Some \<lparr> bankAccountName = fld_bankAccountName r,
                           bankSortCode = fld_bankSortCode r,
                           bankAccountNumber = fld_bankAccountNumber r \<rparr>
               else None) \<rparr>"

definition successSummary :: "config \<Rightarrow> fields \<Rightarrow> app_state \<Rightarrow> success_summary" where
  "successSummary cfg r s =
     (let t = getCartTotals cfg s
      in \<lparr> success_email = fld_email r,
           success_items = itemCount t,
           success_total = (if fld_payoutType r = ''STORE_CREDIT''
                            then storeCreditTotal t else subtotal t),
           success_payout = (if fld_payoutType r = ''STORE_CREDIT''
                             then ''Store Credit (+10%)'' else ''Bank Transfer'') \<rparr>)"

definition handleSubmit_bank ::
  "config \<Rightarrow> (submission_data \<Rightarrow> http_outcome) \<Rightarrow> form \<Rightarrow> app_state \<Rightarrow> app_state" where
  "handleSubmit_bank cfg backend f s =
     (let s0 = s\<lparr>ui := (ui s)\<lparr>errorBanner := None\<rparr>\<rparr>;
          r = readForm f
      in case validate r of
           Some e \<Rightarrow> reject e s0
         | None \<Rightarrow>
             (let s1 = showLoading
                         (s0\<lparr>ui := (ui s0)\<lparr>phoneErrorHidden := True,
                                              channelErrorHidden := True\<rparr>\<rparr>);
                  formData = submissionData r (cart s1);
                  s2 = s1\<lparr>posted := formData # posted s1\<rparr>
              in case submitTradeIn backend formData of
                   Inr n \<Rightarrow> onSuccess cfg n (Some (successSummary cfg r s2)) s2
                 | Inl m \<Rightarrow> onFailure cfg m s2))"

section \<open>Tracking page\<close>

text \<open>
  An entry of \<open>items\<close> in the answer of \<open>/track\<close>; \<open>finalPrice\<close> and
  \<open>conditionActual\<close> are \<open>null\<close> until the card has been graded.
\<close>

record tracked_item =
  trk_cardName :: string
  trk_setCode :: "string option"
  trk_quantity :: int
  trk_conditionClaimed :: string
  trk_conditionActual :: "string option"
  quotedPrice :: int
  finalPrice :: "int option"
  status :: string

definition hasAdjustment :: "tracked_item \<Rightarrow> bool" where
  "hasAdjustment item = (finalPrice item \<noteq> None \<and> finalPrice item \<noteq> Some (quotedPrice item))"

definition displayPrice :: "tracked_item \<Rightarrow> int" where
  "displayPrice item = (case finalPrice item of Some p \<Rightarrow> p | None \<Rightarrow> quotedPrice item)"

text \<open>
  One row of the item list: the name, the set code and the regraded condition when they
  are shown, the struck-through quoted amount (the adjustment indicator), the amount, and
  the status badge. Amounts are in pence, before \<open>formatPrice\<close>.
\<close>

record item_row =
  row_name :: string
  row_setCode :: "string option"
  row_quantity :: int
  row_conditionClaimed :: string
  row_conditionActual :: "string option"
  row_adjusted :: "int option"
  row_price :: int
  row_status :: "string option"

definition renderItem :: "tracked_item \<Rightarrow> item_row" where
  "renderItem item =
     \<lparr> row_name = trk_cardName item,
       row_setCode = or_null (trk_setCode item),
       row_quantity = trk_quantity item,
       row_conditionClaimed = trk_conditionClaimed item,
       row_conditionActual =
         (case or_null (trk_conditionActual item) of
            None \<Rightarrow> None
          | Some a \<Rightarrow> if a \<noteq> trk_conditionClaimed item then Some a else None),
       row_adjusted =
         (if hasAdjustment item then Some (quotedPrice item * trk_quantity item) else None),
       row_price = displayPrice item * trk_quantity item,
       row_status = (if status item \<noteq> ''PENDING'' then Some (status item) else None) \<rparr>"

text \<open>\<open>renderItems\<close>: the rows and the number written to \<open>itemsCount\<close>.\<close>

definition renderItems :: "tracked_item list \<Rightarrow> item_row list \<times> int" where
  "renderItems its =
     (map renderItem its, foldl (\<lambda>sum item. sum + trk_quantity item) 0 its)"

section \<open>Sessions\<close>

text \<open>
  The states the page can be in. A first visit starts with an empty cart and nothing
  stored. Every later page load starts the script again with an empty cart and a fresh
  page, and \<open>init\<close> calls \<open>loadCart\<close> and \<open>updateFormSections\<close>. In between the shopper
  adds, removes, changes quantities, clears and submits, and the configuration may have
  been replaced by \<open>loadConfig\<close> at any of these moments.
\<close>

inductive reachable :: "app_state \<Rightarrow> bool" where
  first_visit: "cart s = [] \<Longrightarrow> tradeInCart (store s) = None \<Longrightarrow> reachable s"
| page_load: "reachable s \<Longrightarrow> reachable (updateFormSections cfg (loadCart (s\<lparr>cart := [], ui := v\<rparr>)))"
| add: "reachable s \<Longrightarrow> reachable (addToCart cfg c cond qty s)"
| remove: "reachable s \<Longrightarrow> reachable (removeFromCart cfg index s)"
| change: "reachable s \<Longrightarrow> reachable (updateCartQuantity cfg index delta s)"
| clear: "reachable s \<Longrightarrow> reachable (clearCart cfg s)"
| submit: "reachable s \<Longrightarrow> reachable (handleSubmit cfg backend f s)"
| submit_bank: "reachable s \<Longrightarrow> reachable (handleSubmit_bank cfg backend f s)"

section \<open>The specification's words\<close>

text \<open>The pair that identifies a cart entry.\<close>

definition item_key :: "cart_item \<Rightarrow> string \<times> string" where
  "item_key i = (cardId i, condition i)"

definition unique_keys :: "cart_item list \<Rightarrow> bool" where
  "unique_keys c = distinct (map item_key c)"

text \<open>The stored cart, as \<open>loadCart\<close> would read it, has one entry for a pair at most.\<close>

definition stored_unique :: "storage \<Rightarrow> bool" where
  "stored_unique st =
     (case tradeInCart st of
        Some (Items xs) \<Rightarrow> unique_keys (map the (filter isValid xs))
      | _ \<Rightarrow> True)"

text \<open>The submit button can be pressed: its section is shown and it is not disabled.\<close>

definition submitEnabled :: "view \<Rightarrow> bool" where
  "submitEnabled v = (\<not> submitHidden v \<and> \<not> submitDisabled v)"

text \<open>Eligibility as the specification words it: the minimum and the two maxima.\<close>

definition spec_eligible :: "config \<Rightarrow> app_state \<Rightarrow> bool" where
  "spec_eligible cfg s =
     (minimumValue cfg \<le> subtotal (getCartTotals cfg s) \<and>
      itemCount (getCartTotals cfg s) \<le> 100 \<and>
      list_all (\<lambda>i. quantity i \<le> 99) (cart s))"

text \<open>The fixed multiplier table of the specification, as binary64 numbers.\<close>

definition condition_codes :: "string list" where
  "condition_codes = [''NM'', ''LP'', ''MP'', ''HP'', ''DMG'']"

definition fixed_multiplier :: "string \<Rightarrow> rat" where
  "fixed_multiplier cond =
     (if cond = ''NM'' then fl64 (70 / 100)
      else if cond = ''LP'' then fl64 (55 / 100)
      else if cond = ''MP'' then fl64 (40 / 100)
      else if cond = ''HP'' then fl64 (25 / 100)
      else fl64 (10 / 100))"

text \<open>
  The price of a card in a condition as the specification words it: the card's own price
  for the condition when present, otherwise the market price times the multiplier,
  rounded down.
\<close>

definition spec_priceOf :: "card \<Rightarrow> string \<Rightarrow> int" where
  "spec_priceOf c cond =
     (case Option.bind (card_prices c) (\<lambda>ps. ps cond) of
        Some p \<Rightarrow> p
      | None \<Rightarrow> Math_floor (js_mul (of_int (card_bestPriceGbp c)) (fixed_multiplier cond)))"

text \<open>
  The checks of a bank-transfer submission in the order the specification lists them,
  each with whether it passes, and the first that fails.
\<close>

definition spec_bank_checks :: "fields \<Rightarrow> (failure \<times> bool) list" where
  "spec_bank_checks r =
     [ (Email_missing, or_empty (fld_email r) \<noteq> []),
       (Phone_missing, fld_phone r \<noteq> []),
       (Channel_missing, fld_contactChannel r \<noteq> []),
       (Account_name_missing, fld_bankAccountName r \<noteq> []),
       (Sort_code_invalid, digits_exactly 6 (fld_bankSortCode r)),
       (Account_number_invalid, digits_exactly 8 (fld_bankAccountNumber r)) ]"

definition spec_first_failure :: "fields \<Rightarrow> failure option" where
  "spec_first_failure r = map_option fst (find (\<lambda>chk. \<not> snd chk) (spec_bank_checks r))"

text \<open>\<open>a ?? b\<close>\<close>

definition nullish :: "'a option \<Rightarrow> 'a \<Rightarrow> 'a" where
  "nullish a b = (case a of None \<Rightarrow> b | Some x \<Rightarrow> x)"

section \<open>Sample data\<close>

definition blank_view :: view where
  "blank_view =
     \<lparr> customerHidden = True, payoutHidden = True, submitHidden = True,
       storeCreditShown = 0, bankShown = 0,
       minimumNoticeHidden = True, minimumNoticeRemaining = 0,
       submitDisabled = False, errorBanner = None,
       phoneErrorHidden = True, channelErrorHidden = True, focused = None,
       loadingHidden = True, formContentHidden = False, successState = None \<rparr>"

definition first_state :: app_state where
  "first_state =
     \<lparr> cart = [], store = \<lparr> tradeInCart = None, tradeInCartVersion = None \<rparr>,
       ui = blank_view, posted = [] \<rparr>"

text \<open>The card of the integration notes, with its five prices, and a card without.\<close>

definition luffy :: card where
  "luffy =
     \<lparr> card_cardId = ''OP03-OP01-051-sp'', card_name = ''Monkey D. Luffy'',
       card_setCode = ''OP03'', card_cardNumber = ''051'', card_variantType = ''sp'',
       card_fullCardNumber = ''OP03-051'', card_rarity = ''SR'', card_imageUrl = None,
       card_bestPriceGbp = 6800,
       card_prices = Some [''NM'' \<mapsto> 4760, ''LP'' \<mapsto> 3740, ''MP'' \<mapsto> 2720,
                           ''HP'' \<mapsto> 1700, ''DMG'' \<mapsto> 680] \<rparr>"

definition unpriced :: "int \<Rightarrow> card" where
  "unpriced p =
     \<lparr> card_cardId = ''OP01-001'', card_name = ''Roronoa Zoro'',
       card_setCode = ''OP01'', card_cardNumber = ''001'', card_variantType = [],
       card_fullCardNumber = ''OP01-001'', card_rarity = ''L'', card_imageUrl = None,
       card_bestPriceGbp = p, card_prices = None \<rparr>"

text \<open>A cart of one entry with the given quantity and price.\<close>

definition one_item :: "int \<Rightarrow> int \<Rightarrow> app_state" where
  "one_item qty price =
     first_state\<lparr>cart :=
       [\<lparr> cardId = ''OP01-001'', name = ''Roronoa Zoro'', set_label = ''OP01-001'',
          setCode = Some ''OP01'', variantType = None, imageUrl = None,
          condition = ''NM'', quantity = qty, pricePerItem = price,
          basePriceGbp = price \<rparr>]\<rparr>"


definition bank_form :: form where
  "bank_form =
     \<lparr> form_email = Some ''customer@example.com'', form_firstName = Some ''John'',
       form_lastName = Some ''Doe'', form_payoutType = Some ''BANK'',
       form_shopifyCustomerId = None, form_bankAccountName = Some ''John Doe'',
       form_bankSortCode = Some ''12-34-56'', form_bankAccountNumber = Some ''12345678'',
       form_phone = Some ''07700 900123'', form_contactChannel = Some ''email'' \<rparr>"

definition accepting :: "submission_data \<Rightarrow> http_outcome" where
  "accepting d = Ok_201 ''TI-2024-ABC123''"


definition graded_item :: "int option \<Rightarrow> tracked_item" where
  "graded_item fp =
     \<lparr> trk_cardName = ''Monkey D. Luffy'', trk_setCode = Some ''OP03'', trk_quantity = 1,
       trk_conditionClaimed = ''NM'', trk_conditionActual = None,
       quotedPrice = 4760, finalPrice = fp, status = ''PENDING'' \<rparr>"

text \<open>A cart stored by an earlier version of the script.\<close>

definition old_store :: app_state where
  "old_store = (one_item 2 4760)\<lparr>store :=
     \<lparr> tradeInCart = Some (JSON_stringify (cart (one_item 2 4760))),
       tradeInCartVersion = Some ''1'' \<rparr>\<rparr>"

section \<open>What the cart functions leave alone\<close>

lemma saveCart_cart: "cart (saveCart s) = cart s"
  by (simp add: saveCart_def)

lemma updateFormSections_cart: "cart (updateFormSections cfg s) = cart s"
  by (simp add: updateFormSections_def Let_def)

lemma updateFormSections_store: "store (updateFormSections cfg s) = store s"
  by (simp add: updateFormSections_def Let_def)

lemma updateFormSections_posted: "posted (updateFormSections cfg s) = posted s"
  by (simp add: updateFormSections_def Let_def)

section \<open>Totals\<close>

lemma foldl_plus: "foldl (\<lambda>sum x. sum + f x) a xs = a + sum_list (map f xs)"
  for a :: int
  by (induction xs arbitrary: a) simp_all

lemma getCartTotals_itemCount: "itemCount (getCartTotals cfg s) = sum_list (map quantity (cart s))"
  by (simp add: getCartTotals_def Let_def foldl_plus)

lemma getCartTotals_subtotal:
  "subtotal (getCartTotals cfg s) = (\<Sum>i\<leftarrow>cart s. quantity i * pricePerItem i)"
  by (simp add: getCartTotals_def Let_def foldl_plus mult.commute)

lemma one_item_totals:
  "subtotal (getCartTotals cfg (one_item q p)) = q * p"
  "itemCount (getCartTotals cfg (one_item q p)) = q"
  "cart (one_item q p) \<noteq> []"
  by (simp_all add: getCartTotals_subtotal getCartTotals_itemCount one_item_def)

section \<open>Eligibility\<close>

lemma submitEnabled_update:
  "submitEnabled (ui (updateFormSections cfg s)) \<longleftrightarrow>
     cart s \<noteq> [] \<and> minimumValue cfg \<le> subtotal (getCartTotals cfg s)"
  by (simp add: updateFormSections_def submitEnabled_def Let_def)

lemma notice_update:
  "cart s \<noteq> [] \<Longrightarrow> subtotal (getCartTotals cfg s) < minimumValue cfg \<Longrightarrow>
     \<not> minimumNoticeHidden (ui (updateFormSections cfg s)) \<and>
     minimumNoticeRemaining (ui (updateFormSections cfg s)) =
       minimumValue cfg - subtotal (getCartTotals cfg s)"
  by (simp add: updateFormSections_def Let_def)

text \<open>
  C1, as the script has it. After \<open>updateFormSections\<close> the submit button can be pressed
  if and only if the cart is not empty and its subtotal reaches the configured minimum;
  neither the number of cards nor the quantity of an entry is looked at. For a cart that
  is not empty and below the minimum, the notice is shown with the exact shortfall
  \<open>minimumValue - subtotal\<close>.
\<close>

theorem eligibility_checks_minimum_only:
  "(submitEnabled (ui (updateFormSections cfg s)) \<longleftrightarrow>
      cart s \<noteq> [] \<and> minimumValue cfg \<le> subtotal (getCartTotals cfg s)) \<and>
   (cart s \<noteq> [] \<longrightarrow> subtotal (getCartTotals cfg s) < minimumValue cfg \<longrightarrow>
      \<not> minimumNoticeHidden (ui (updateFormSections cfg s)) \<and>
      minimumNoticeRemaining (ui (updateFormSections cfg s)) =
        minimumValue cfg - subtotal (getCartTotals cfg s))"
  using submitEnabled_update notice_update by blast

text \<open>One card at 480 pence: not eligible, 20 pence short. One card at 500 pence: eligible.\<close>

theorem eligibility_checks_minimum_only_witness:
  "\<not> submitEnabled (ui (updateFormSections DEFAULT_CONFIG (one_item 1 480))) \<and>
   minimumNoticeRemaining (ui (updateFormSections DEFAULT_CONFIG (one_item 1 480))) = 20 \<and>
   submitEnabled (ui (updateFormSections DEFAULT_CONFIG (one_item 1 500)))"
  using eligibility_checks_minimum_only [of DEFAULT_CONFIG "one_item 1 480"]
        eligibility_checks_minimum_only [of DEFAULT_CONFIG "one_item 1 500"]
  by (simp add: one_item_totals DEFAULT_CONFIG_def)

text \<open>
  C1, as the specification words it, fails: an entry of 101 cards at 5 pence each reaches
  the minimum and the button is enabled, although the cart holds more than 100 cards and
  the entry more than 99.
\<close>

theorem eligibility_ignores_maxima:
  "submitEnabled (ui (updateFormSections DEFAULT_CONFIG (one_item 101 5))) \<and>
   \<not> spec_eligible DEFAULT_CONFIG (one_item 101 5)"
  by (simp add: submitEnabled_update spec_eligible_def one_item_totals DEFAULT_CONFIG_def)

section \<open>Changing a quantity\<close>

lemma updateCartQuantity_cart:
  "0 \<le> index \<Longrightarrow> index < int (length (cart s)) \<Longrightarrow>
     cart (updateCartQuantity cfg index delta s) =
       (cart s)[nat index := (cart s ! nat index)
                  \<lparr>quantity := max 1 (quantity (cart s ! nat index) + delta)\<rparr>]"
  by (simp add: updateCartQuantity_def Let_def updateFormSections_cart saveCart_cart)

text \<open>What \<open>updateCartQuantity\<close> does keep: no entry is removed, no quantity drops below 1.\<close>

lemma updateCartQuantity_length:
  "length (cart (updateCartQuantity cfg index delta s)) = length (cart s)"
  by (simp add: updateCartQuantity_def Let_def updateFormSections_cart saveCart_cart)

lemma updateCartQuantity_at_least_1:
  "0 \<le> index \<Longrightarrow> index < int (length (cart s)) \<Longrightarrow>
     1 \<le> quantity (cart (updateCartQuantity cfg index delta s) ! nat index)"
  by (simp add: updateCartQuantity_cart)

text \<open>
  C2. \<open>updateCartQuantity\<close> has the lower limit only. From quantity 1 a delta of 1000
  gives 1001, and from the dialog's maximum of 99 the cart's \<open>+\<close> button gives 100, while
  the \<open>+\<close> button of the dialog stays at 99 and a typed 1001 becomes 99. A delta of
  \<open>-5\<close> from 1 leaves 1.
\<close>

theorem updateCartQuantity_exceeds_99:
  "quantity (cart (updateCartQuantity DEFAULT_CONFIG 0 1000 (one_item 1 4760)) ! 0) = 1001 \<and>
   quantity (cart (updateCartQuantity DEFAULT_CONFIG 0 1 (one_item 99 4760)) ! 0) = 100 \<and>
   quantity (cart (updateCartQuantity DEFAULT_CONFIG 0 (- 5) (one_item 1 4760)) ! 0) = 1 \<and>
   modalQuantityIncrease 99 = 99 \<and>
   modalQuantityChange (Some 1001) = 99"
  by (simp add: updateCartQuantity_cart one_item_def modalQuantityIncrease_def
        modalQuantityChange_def)

text \<open>
  C10. For every index that is not the index of a cart entry, \<open>updateCartQuantity\<close>
  returns the state it was given, whatever the delta: the cart, the storage and the page
  are unchanged, and so are the totals, which are computed from the cart.
\<close>

theorem updateCartQuantity_out_of_range:
  "index < 0 \<or> int (length (cart s)) \<le> index \<Longrightarrow>
     updateCartQuantity cfg index delta s = s \<and>
     getCartTotals cfg (updateCartQuantity cfg index delta s) = getCartTotals cfg s"
  by (auto simp: updateCartQuantity_def)

theorem updateCartQuantity_out_of_range_witness:
  "(1 < (0::int) \<or> int (length (cart (one_item 2 4760))) \<le> 1) \<and>
   updateCartQuantity DEFAULT_CONFIG 1 5 (one_item 2 4760) = one_item 2 4760 \<and>
   getCartTotals DEFAULT_CONFIG (updateCartQuantity DEFAULT_CONFIG 1 5 (one_item 2 4760)) =
     getCartTotals DEFAULT_CONFIG (one_item 2 4760)"
proof -
  have h: "1 < (0::int) \<or> int (length (cart (one_item 2 4760))) \<le> 1"
    by (simp add: one_item_def)
  show ?thesis
    using h updateCartQuantity_out_of_range [OF h, of DEFAULT_CONFIG 5] by simp
qed

section \<open>One entry for each card and condition\<close>

lemma findIndex_absent: "findIndex P xs < 0 \<Longrightarrow> \<forall>x\<in>set xs. \<not> P x"
  by (induction xs) (auto simp: Let_def split: if_splits)

lemma findIndex_present:
  "0 \<le> findIndex P xs \<Longrightarrow> nat (findIndex P xs) < length xs \<and> P (xs ! nat (findIndex P xs))"
proof (induction xs)
  case Nil
  then show ?case by simp
next
  case (Cons x xs)
  show ?case
  proof (cases "P x")
    case True
    then show ?thesis by simp
  next
    case False
    with Cons.prems have r: "0 \<le> findIndex P xs" by (simp add: Let_def split: if_splits)
    with Cons.IH have "nat (findIndex P xs) < length xs \<and> P (xs ! nat (findIndex P xs))" by simp
    with False r show ?thesis by (simp add: Let_def nat_add_distrib)
  qed
qed

lemma findIndex_absent_iff: "findIndex P xs < 0 \<longleftrightarrow> (\<forall>x\<in>set xs. \<not> P x)"
proof
  assume "findIndex P xs < 0"
  then show "\<forall>x\<in>set xs. \<not> P x" by (rule findIndex_absent)
next
  assume "\<forall>x\<in>set xs. \<not> P x"
  then show "findIndex P xs < 0" by (induction xs) (simp_all add: Let_def)
qed

lemma addToCart_cart_new:
  "findIndex (\<lambda>item. cardId item = card_cardId c \<and> condition item = cond) (cart s) < 0 \<Longrightarrow>
     cart (addToCart cfg c cond qty s) = cart s @ [newItem cfg c cond qty]"
  by (simp add: addToCart_def Let_def updateFormSections_cart saveCart_cart)

lemma addToCart_cart_merge:
  "0 \<le> findIndex (\<lambda>item. cardId item = card_cardId c \<and> condition item = cond) (cart s) \<Longrightarrow>
     cart (addToCart cfg c cond qty s) =
       (cart s)[nat (findIndex (\<lambda>item. cardId item = card_cardId c \<and> condition item = cond) (cart s)) :=
         (cart s ! nat (findIndex (\<lambda>item. cardId item = card_cardId c \<and> condition item = cond) (cart s)))
           \<lparr>quantity := quantity (cart s ! nat (findIndex (\<lambda>item. cardId item = card_cardId c \<and> condition item = cond) (cart s))) + qty\<rparr>]"
  by (simp add: addToCart_def Let_def updateFormSections_cart saveCart_cart)

lemma keys_quantity_update:
  "n < length xs \<Longrightarrow> map item_key (xs[n := (xs ! n)\<lparr>quantity := q\<rparr>]) = map item_key xs"
  by (simp add: map_update item_key_def list_update_same_conv)

lemma unique_keys_addToCart:
  assumes "unique_keys (cart s)"
  shows "unique_keys (cart (addToCart cfg c cond qty s))"
proof (cases "0 \<le> findIndex (\<lambda>item. cardId item = card_cardId c \<and> condition item = cond) (cart s)")
  case True
  from findIndex_present [OF True] have "nat (findIndex (\<lambda>item. cardId item = card_cardId c \<and> condition item = cond) (cart s)) < length (cart s)" by simp
  then show ?thesis using assms
    by (simp add: addToCart_cart_merge [OF True] unique_keys_def keys_quantity_update)
next
  case False
  then have neg: "findIndex (\<lambda>item. cardId item = card_cardId c \<and> condition item = cond) (cart s) < 0" by simp
  from findIndex_absent [OF neg] have "(card_cardId c, cond) \<notin> set (map item_key (cart s))"
    by (auto simp: item_key_def)
  then show ?thesis using assms
    by (simp add: addToCart_cart_new [OF neg] unique_keys_def item_key_def newItem_def)
qed

lemma distinct_splice1: "distinct ys \<Longrightarrow> distinct (splice1 index ys)"
  by (auto simp: splice1_def Let_def dest: in_set_takeD in_set_dropD
        simp: set_take_disj_set_drop_if_distinct disjoint_iff)

lemma map_splice1: "map f (splice1 index xs) = splice1 index (map f xs)"
  by (simp add: splice1_def Let_def take_map drop_map)

lemma unique_keys_removeFromCart:
  "unique_keys (cart s) \<Longrightarrow> unique_keys (cart (removeFromCart cfg index s))"
  by (simp add: removeFromCart_def updateFormSections_cart saveCart_cart unique_keys_def
        map_splice1 distinct_splice1)

lemma unique_keys_updateCartQuantity:
  assumes "unique_keys (cart s)"
  shows "unique_keys (cart (updateCartQuantity cfg index delta s))"
proof (cases "0 \<le> index \<and> index < int (length (cart s))")
  case True
  then have "nat index < length (cart s)" by linarith
  with True assms show ?thesis
    by (simp add: updateCartQuantity_cart unique_keys_def keys_quantity_update)
next
  case False
  then have "updateCartQuantity cfg index delta s = s" by (auto simp: updateCartQuantity_def)
  with assms show ?thesis by simp
qed

lemma unique_keys_valid_part:
  "unique_keys c \<Longrightarrow> unique_keys (map the (filter isValid (map Some c)))"
proof -
  assume u: "unique_keys c"
  have "map the (filter isValid (map Some c)) = filter (\<lambda>i. isValid (Some i)) c"
    by (induction c) simp_all
  with u show ?thesis by (simp add: unique_keys_def distinct_map_filter)
qed

lemma stored_unique_saveCart:
  "unique_keys (cart s) \<Longrightarrow> stored_unique (store (saveCart s))"
  by (simp add: stored_unique_def saveCart_def JSON_stringify_def unique_keys_valid_part)

lemma inv_loadCart:
  assumes "stored_unique (store s)" and "unique_keys (cart s)"
  shows "unique_keys (cart (loadCart s)) \<and> stored_unique (store (loadCart s))"
proof (cases "tradeInCartVersion (store s) = Some CART_VERSION")
  case False
  then show ?thesis by (simp add: loadCart_def Let_def unique_keys_def stored_unique_def)
next
  case True
  show ?thesis
  proof (cases "tradeInCart (store s)")
    case None
    with True assms show ?thesis by (simp add: loadCart_def Let_def)
  next
    case (Some p)
    show ?thesis
    proof (cases p)
      case Garbage
      with Some True assms show ?thesis by (simp add: loadCart_def Let_def unique_keys_def)
    next
      case (Items xs)
      with Some assms(1) have u: "unique_keys (map the (filter isValid xs))"
        by (simp add: stored_unique_def)
      with Some Items True assms(1) show ?thesis
        by (simp add: loadCart_def Let_def saveCart_cart stored_unique_saveCart)
    qed
  qed
qed

section \<open>Submitting\<close>

lemma showError_parts:
  "cart (showError m s) = cart s" "store (showError m s) = store s"
  "posted (showError m s) = posted s"
  by (simp_all add: showError_def)

lemma showLoading_parts:
  "cart (showLoading s) = cart s" "store (showLoading s) = store s"
  "posted (showLoading s) = posted s"
  by (simp_all add: showLoading_def)

lemma reject_parts:
  "cart (reject e s) = cart s" "store (reject e s) = store s" "posted (reject e s) = posted s"
  by (cases e; simp add: Let_def showError_def)+

lemma onFailure_parts:
  "cart (onFailure cfg m s) = cart s" "store (onFailure cfg m s) = store s"
  "posted (onFailure cfg m s) = posted s"
  by (simp_all add: onFailure_def Let_def showError_parts updateFormSections_cart
        updateFormSections_store updateFormSections_posted)

lemma clearCart_parts:
  "cart (clearCart cfg s) = []"
  "store (clearCart cfg s) =
     (store s)\<lparr>tradeInCart := Some (Items []), tradeInCartVersion := Some CART_VERSION\<rparr>"
  by (simp_all add: clearCart_def updateFormSections_cart updateFormSections_store
        saveCart_def JSON_stringify_def)

lemma clearCart_ui:
  "ui (clearCart cfg s) =
     (ui s)\<lparr>customerHidden := True, payoutHidden := True, submitHidden := True\<rparr>"
  by (simp add: clearCart_def updateFormSections_def saveCart_def Let_def)

lemma onSuccess_parts:
  "cart (onSuccess cfg n sm s) = []"
  "store (onSuccess cfg n sm s) =
     (store s)\<lparr>tradeInCart := None, tradeInCartVersion := Some CART_VERSION\<rparr>"
  "successState (ui (onSuccess cfg n sm s)) = Some (successLinks n sm)"
  by (simp_all add: onSuccess_def Let_def clearCart_parts clearCart_ui)

lemma handleSubmit_refused:
  "or_empty (form_email f) = [] \<Longrightarrow>
     cart (handleSubmit cfg backend f s) = cart s \<and>
     store (handleSubmit cfg backend f s) = store s \<and>
     posted (handleSubmit cfg backend f s) = posted s"
  by (simp add: handleSubmit_def Let_def showError_parts)

lemma handleSubmit_failed:
  "or_empty (form_email f) \<noteq> [] \<Longrightarrow> submitTradeIn backend (formData f (cart s)) = Inl m \<Longrightarrow>
     cart (handleSubmit cfg backend f s) = cart s \<and>
     store (handleSubmit cfg backend f s) = store s"
  by (simp add: handleSubmit_def Let_def showLoading_parts onFailure_parts)

lemma handleSubmit_succeeded:
  "or_empty (form_email f) \<noteq> [] \<Longrightarrow> submitTradeIn backend (formData f (cart s)) = Inr n \<Longrightarrow>
     cart (handleSubmit cfg backend f s) = [] \<and>
     store (handleSubmit cfg backend f s) =
       (store s)\<lparr>tradeInCart := None, tradeInCartVersion := Some CART_VERSION\<rparr> \<and>
     successState (ui (handleSubmit cfg backend f s)) = Some (successLinks n None)"
  by (simp add: handleSubmit_def Let_def showLoading_parts onSuccess_parts)

lemma handleSubmit_bank_refused:
  "validate (readForm f) = Some e \<Longrightarrow>
     cart (handleSubmit_bank cfg backend f s) = cart s \<and>
     store (handleSubmit_bank cfg backend f s) = store s \<and>
     posted (handleSubmit_bank cfg backend f s) = posted s"
  by (simp add: handleSubmit_bank_def Let_def reject_parts)

lemma handleSubmit_bank_posted:
  "validate (readForm f) = None \<Longrightarrow>
     posted (handleSubmit_bank cfg backend f s) = submissionData (readForm f) (cart s) # posted s"
  by (simp add: handleSubmit_bank_def Let_def showLoading_parts onFailure_parts onSuccess_def
        clearCart_def updateFormSections_posted saveCart_def split: sum.split)

lemma handleSubmit_bank_failed:
  "validate (readForm f) = None \<Longrightarrow>
   submitTradeIn backend (submissionData (readForm f) (cart s)) = Inl m \<Longrightarrow>
     cart (handleSubmit_bank cfg backend f s) = cart s \<and>
     store (handleSubmit_bank cfg backend f s) = store s"
  by (simp add: handleSubmit_bank_def Let_def showLoading_parts onFailure_parts)

lemma handleSubmit_bank_succeeded:
  "validate (readForm f) = None \<Longrightarrow>
   submitTradeIn backend (submissionData (readForm f) (cart s)) = Inr n \<Longrightarrow>
     cart (handleSubmit_bank cfg backend f s) = [] \<and>
     store (handleSubmit_bank cfg backend f s) =
       (store s)\<lparr>tradeInCart := None, tradeInCartVersion := Some CART_VERSION\<rparr> \<and>
     map_option submissionNumber (successState (ui (handleSubmit_bank cfg backend f s))) = Some n \<and>
     map_option packingLink (successState (ui (handleSubmit_bank cfg backend f s))) =
       Some (packingLink (successLinks n None)) \<and>
     map_option shippingLink (successState (ui (handleSubmit_bank cfg backend f s))) =
       Some (shippingLink (successLinks n None)) \<and>
     map_option trackingLink (successState (ui (handleSubmit_bank cfg backend f s))) =
       Some (trackingLink (successLinks n None))"
  by (simp add: handleSubmit_bank_def Let_def showLoading_parts onSuccess_parts successLinks_def)


section \<open>The invariant of the cart\<close>

lemma stored_unique_after_save:
  "unique_keys (cart s1) \<Longrightarrow> stored_unique (store (updateFormSections cfg (saveCart s1)))"
  by (simp add: updateFormSections_store stored_unique_saveCart)

lemma stored_unique_addToCart:
  assumes "unique_keys (cart s)"
  shows "stored_unique (store (addToCart cfg c cond qty s))"
proof -
  obtain s1 where eq: "addToCart cfg c cond qty s = updateFormSections cfg (saveCart s1)"
    by (simp add: addToCart_def Let_def)
  have "unique_keys (cart (addToCart cfg c cond qty s))"
    using assms by (rule unique_keys_addToCart)
  then have "unique_keys (cart s1)" by (simp add: eq updateFormSections_cart saveCart_cart)
  then show ?thesis unfolding eq by (rule stored_unique_after_save)
qed

lemma stored_unique_removeFromCart:
  assumes "unique_keys (cart s)"
  shows "stored_unique (store (removeFromCart cfg index s))"
proof -
  have "unique_keys (cart (removeFromCart cfg index s))"
    using assms by (rule unique_keys_removeFromCart)
  then have "unique_keys (cart (s\<lparr>cart := splice1 index (cart s)\<rparr>))"
    by (simp add: removeFromCart_def updateFormSections_cart saveCart_cart)
  then show ?thesis unfolding removeFromCart_def by (rule stored_unique_after_save)
qed

lemma stored_unique_updateCartQuantity:
  assumes "unique_keys (cart s)" and "stored_unique (store s)"
  shows "stored_unique (store (updateCartQuantity cfg index delta s))"
proof (cases "0 \<le> index \<and> index < int (length (cart s))")
  case True
  obtain s1 where eq: "updateCartQuantity cfg index delta s = updateFormSections cfg (saveCart s1)"
    using True by (simp add: updateCartQuantity_def Let_def)
  have "unique_keys (cart (updateCartQuantity cfg index delta s))"
    using assms(1) by (rule unique_keys_updateCartQuantity)
  then have "unique_keys (cart s1)" by (simp add: eq updateFormSections_cart saveCart_cart)
  then show ?thesis unfolding eq by (rule stored_unique_after_save)
next
  case False
  then have "updateCartQuantity cfg index delta s = s" by (auto simp: updateCartQuantity_def)
  with assms(2) show ?thesis by simp
qed

lemma inv_clearCart:
  "unique_keys (cart (clearCart cfg s)) \<and> stored_unique (store (clearCart cfg s))"
  by (simp add: clearCart_parts unique_keys_def stored_unique_def isValid_def)

lemma inv_handleSubmit:
  assumes "unique_keys (cart s)" and "stored_unique (store s)"
  shows "unique_keys (cart (handleSubmit cfg backend f s)) \<and>
         stored_unique (store (handleSubmit cfg backend f s))"
proof (cases "or_empty (form_email f) = []")
  case True
  with assms show ?thesis by (simp add: handleSubmit_refused)
next
  case False
  show ?thesis
  proof (cases "submitTradeIn backend (formData f (cart s))")
    case (Inl m)
    with False assms show ?thesis by (simp add: handleSubmit_failed)
  next
    case (Inr n)
    with False show ?thesis
      by (simp add: handleSubmit_succeeded unique_keys_def stored_unique_def)
  qed
qed

lemma inv_handleSubmit_bank:
  assumes "unique_keys (cart s)" and "stored_unique (store s)"
  shows "unique_keys (cart (handleSubmit_bank cfg backend f s)) \<and>
         stored_unique (store (handleSubmit_bank cfg backend f s))"
proof (cases "validate (readForm f)")
  case (Some e)
  with assms show ?thesis by (simp add: handleSubmit_bank_refused)
next
  case None
  show ?thesis
  proof (cases "submitTradeIn backend (submissionData (readForm f) (cart s))")
    case (Inl m)
    with None assms show ?thesis by (simp add: handleSubmit_bank_failed)
  next
    case (Inr n)
    with None show ?thesis
      by (simp add: handleSubmit_bank_succeeded unique_keys_def stored_unique_def)
  qed
qed

lemma reachable_invariant:
  "reachable s \<Longrightarrow> unique_keys (cart s) \<and> stored_unique (store s)"
proof (induction rule: reachable.induct)
  case (first_visit s)
  then show ?case by (simp add: unique_keys_def stored_unique_def)
next
  case (page_load s cfg v)
  then have "unique_keys (cart (loadCart (s\<lparr>cart := [], ui := v\<rparr>))) \<and>
             stored_unique (store (loadCart (s\<lparr>cart := [], ui := v\<rparr>)))"
    by (intro inv_loadCart) (simp_all add: unique_keys_def)
  then show ?case by (simp add: updateFormSections_cart updateFormSections_store)
next
  case (add s cfg c cond qty)
  then show ?case by (simp add: unique_keys_addToCart stored_unique_addToCart)
next
  case (remove s cfg index)
  then show ?case by (simp add: unique_keys_removeFromCart stored_unique_removeFromCart)
next
  case (change s cfg index delta)
  then show ?case by (simp add: unique_keys_updateCartQuantity stored_unique_updateCartQuantity)
next
  case (clear s cfg)
  then show ?case by (simp add: inv_clearCart)
next
  case (submit s cfg backend f)
  then show ?case by (simp add: inv_handleSubmit)
next
  case (submit_bank s cfg backend f)
  then show ?case by (simp add: inv_handleSubmit_bank)
qed

lemma findIndex_last:
  "\<forall>x\<in>set xs. \<not> P x \<Longrightarrow> P y \<Longrightarrow> findIndex P (xs @ [y]) = int (length xs)"
  by (induction xs) (simp_all add: Let_def)

lemma findIndex_same_tests:
  "map P xs = map P ys \<Longrightarrow> findIndex P xs = findIndex P ys"
proof (induction xs arbitrary: ys)
  case Nil
  then show ?case by simp
next
  case (Cons x xs)
  then obtain y ys' where ys: "ys = y # ys'" by (cases ys) auto
  with Cons.prems have "P x = P y" "map P xs = map P ys'" by simp_all
  with Cons.IH [of ys'] show ?case by (simp add: ys)
qed

lemma newItem_quantity: "quantity (newItem cfg c cond a) = a"
  by (simp add: newItem_def)

lemma addToCart_twice_new:
  assumes "(card_cardId c, cond) \<notin> item_key ` set (cart s)"
    and "card_cardId c' = card_cardId c"
  shows "cart (addToCart cfg' c' cond b (addToCart cfg c cond a s)) =
           cart s @ [(newItem cfg c cond a)\<lparr>quantity := a + b\<rparr>]"
proof -
  let ?P = "\<lambda>item. cardId item = card_cardId c \<and> condition item = cond"
  have absent: "\<forall>x\<in>set (cart s). \<not> ?P x" using assms(1) by (force simp: item_key_def)
  then have neg: "findIndex ?P (cart s) < 0" by (simp add: findIndex_absent_iff)
  have c1: "cart (addToCart cfg c cond a s) = cart s @ [newItem cfg c cond a]"
    using neg by (rule addToCart_cart_new)
  have "?P (newItem cfg c cond a)" by (simp add: newItem_def)
  with absent have idx: "findIndex ?P (cart s @ [newItem cfg c cond a]) = int (length (cart s))"
    by (rule findIndex_last)
  have "0 \<le> findIndex (\<lambda>item. cardId item = card_cardId c' \<and> condition item = cond)
               (cart (addToCart cfg c cond a s))"
    by (simp add: c1 assms(2) idx)
  from addToCart_cart_merge [OF this, of cfg' b] show ?thesis
    by (simp add: c1 assms(2) idx newItem_quantity)
qed

lemma addToCart_twice_merge:
  assumes "0 \<le> findIndex (\<lambda>item. cardId item = card_cardId c \<and> condition item = cond) (cart s)"
    and "card_cardId c' = card_cardId c"
  shows "cart (addToCart cfg' c' cond b (addToCart cfg c cond a s)) =
           (cart s)[nat (findIndex (\<lambda>item. cardId item = card_cardId c \<and> condition item = cond) (cart s)) :=
             (cart s ! nat (findIndex (\<lambda>item. cardId item = card_cardId c \<and> condition item = cond) (cart s)))
               \<lparr>quantity := quantity (cart s ! nat (findIndex (\<lambda>item. cardId item = card_cardId c \<and> condition item = cond) (cart s))) + a + b\<rparr>]"
proof -
  let ?P = "\<lambda>item. cardId item = card_cardId c \<and> condition item = cond"
  define k where "k = nat (findIndex ?P (cart s))"
  have k: "k < length (cart s)" using findIndex_present [OF assms(1)] by (simp add: k_def)
  have c1: "cart (addToCart cfg c cond a s) =
              (cart s)[k := (cart s ! k)\<lparr>quantity := quantity (cart s ! k) + a\<rparr>]"
    using addToCart_cart_merge [OF assms(1), of cfg a] by (simp add: k_def)
  have "map ?P ((cart s)[k := (cart s ! k)\<lparr>quantity := quantity (cart s ! k) + a\<rparr>]) = map ?P (cart s)"
    using k by (simp add: map_update list_update_same_conv)
  then have same: "findIndex ?P ((cart s)[k := (cart s ! k)\<lparr>quantity := quantity (cart s ! k) + a\<rparr>]) =
                   findIndex ?P (cart s)"
    by (rule findIndex_same_tests)
  have "0 \<le> findIndex (\<lambda>item. cardId item = card_cardId c' \<and> condition item = cond)
               (cart (addToCart cfg c cond a s))"
    using assms by (simp add: c1 same)
  from addToCart_cart_merge [OF this, of cfg' b]
  have "cart (addToCart cfg' c' cond b (addToCart cfg c cond a s)) =
          ((cart s)[k := (cart s ! k)\<lparr>quantity := quantity (cart s ! k) + a\<rparr>])
            [k := (((cart s)[k := (cart s ! k)\<lparr>quantity := quantity (cart s ! k) + a\<rparr>]) ! k)
               \<lparr>quantity := quantity (((cart s)[k := (cart s ! k)\<lparr>quantity := quantity (cart s ! k) + a\<rparr>]) ! k) + b\<rparr>]"
    by (simp add: assms(2) c1 same flip: k_def)
  also have "\<dots> = (cart s)[k := (cart s ! k)\<lparr>quantity := quantity (cart s ! k) + a + b\<rparr>]"
    using k by simp
  finally show ?thesis by (simp flip: k_def)
qed


text \<open>
  C4. In every state the page can reach, the cart has at most one entry for a card and a
  condition. Adding a card in a condition that the cart does not hold yet, with quantity
  \<open>a\<close>, and adding the same card and condition again with quantity \<open>b\<close>, appends
  one entry of quantity \<open>a + b\<close>; its other fields, the price among them, are those
  of the first addition, whatever the card data and the configuration of the second.
\<close>

theorem one_entry_per_card_and_condition:
  "(reachable s \<longrightarrow> unique_keys (cart s)) \<and>
   ((card_cardId c, cond) \<notin> item_key ` set (cart s) \<and> card_cardId c' = card_cardId c \<longrightarrow>
      cart (addToCart cfg' c' cond b (addToCart cfg c cond a s)) =
        cart s @ [(newItem cfg c cond a)\<lparr>quantity := a + b\<rparr>])"
  using reachable_invariant addToCart_twice_new by blast

lemma luffy_NM: "newItem DEFAULT_CONFIG luffy ''NM'' q =
   \<lparr> cardId = ''OP03-OP01-051-sp'', name = ''Monkey D. Luffy'', set_label = ''OP03-051'',
     setCode = Some ''OP03'', variantType = Some ''sp'', imageUrl = None,
     condition = ''NM'', quantity = q, pricePerItem = 4760, basePriceGbp = 6800 \<rparr>"
  by (simp add: newItem_def resolvePrice_def luffy_def)

text \<open>The card of the integration notes, near mint, added twice: 2 and 3 make one entry of 5.\<close>

theorem one_entry_per_card_and_condition_witness:
  "reachable (addToCart DEFAULT_CONFIG luffy ''NM'' 3
     (addToCart DEFAULT_CONFIG luffy ''NM'' 2 first_state)) \<and>
   unique_keys (cart (addToCart DEFAULT_CONFIG luffy ''NM'' 3
     (addToCart DEFAULT_CONFIG luffy ''NM'' 2 first_state))) \<and>
   cart (addToCart DEFAULT_CONFIG luffy ''NM'' 3
     (addToCart DEFAULT_CONFIG luffy ''NM'' 2 first_state)) =
     [\<lparr> cardId = ''OP03-OP01-051-sp'', name = ''Monkey D. Luffy'', set_label = ''OP03-051'',
        setCode = Some ''OP03'', variantType = Some ''sp'', imageUrl = None,
        condition = ''NM'', quantity = 5, pricePerItem = 4760, basePriceGbp = 6800 \<rparr>]"
proof -
  have r: "reachable (addToCart DEFAULT_CONFIG luffy ''NM'' 3
     (addToCart DEFAULT_CONFIG luffy ''NM'' 2 first_state))"
    by (intro reachable.add reachable.first_visit) (simp_all add: first_state_def)
  have n: "(card_cardId luffy, ''NM'') \<notin> item_key ` set (cart first_state)"
    by (simp add: first_state_def)
  show ?thesis
    using r n
      one_entry_per_card_and_condition [of "addToCart DEFAULT_CONFIG luffy ''NM'' 3
        (addToCart DEFAULT_CONFIG luffy ''NM'' 2 first_state)" luffy "''NM''" luffy
        DEFAULT_CONFIG 3 DEFAULT_CONFIG 2]
      one_entry_per_card_and_condition [of first_state luffy "''NM''" luffy
        DEFAULT_CONFIG 3 DEFAULT_CONFIG 2]
    by (simp add: luffy_NM first_state_def)
qed

section \<open>Carts beyond the limits of the integration notes\<close>

text \<open>
  The shopper can bring the cart beyond 99 cards in an entry and 100 cards in all: the
  dialog gives at most 99, and the cart's \<open>+\<close> button goes on from there. The submit
  button stays enabled.
\<close>

lemma over_limit_cart:
  "cart (updateCartQuantity DEFAULT_CONFIG 0 1
     (updateCartQuantity DEFAULT_CONFIG 0 1
       (addToCart DEFAULT_CONFIG luffy ''NM'' 99 first_state))) =
     [(newItem DEFAULT_CONFIG luffy ''NM'' 99)\<lparr>quantity := 101\<rparr>]"
proof -
  have "(card_cardId luffy, ''NM'') \<notin> item_key ` set (cart first_state)"
    by (simp add: first_state_def)
  then have "findIndex (\<lambda>item. cardId item = card_cardId luffy \<and> condition item = ''NM'')
               (cart first_state) < 0"
    by (simp add: first_state_def)
  then have "cart (addToCart DEFAULT_CONFIG luffy ''NM'' 99 first_state) =
               [newItem DEFAULT_CONFIG luffy ''NM'' 99]"
    by (simp add: addToCart_cart_new first_state_def)
  then show ?thesis by (simp add: updateCartQuantity_cart newItem_quantity)
qed

lemma updateCartQuantity_submit:
  "0 \<le> index \<Longrightarrow> index < int (length (cart s)) \<Longrightarrow>
     submitEnabled (ui (updateCartQuantity cfg index delta s)) \<longleftrightarrow>
       minimumValue cfg \<le>
         (\<Sum>i\<leftarrow>cart (updateCartQuantity cfg index delta s). quantity i * pricePerItem i)"
  by (auto simp: updateCartQuantity_def Let_def submitEnabled_update getCartTotals_subtotal
        saveCart_cart updateFormSections_cart)

lemma default_minimum: "minimumValue DEFAULT_CONFIG = 500"
  by (simp add: DEFAULT_CONFIG_def)

lemma over_limit_cart_reachable:
  "reachable (updateCartQuantity DEFAULT_CONFIG 0 1
     (updateCartQuantity DEFAULT_CONFIG 0 1
       (addToCart DEFAULT_CONFIG luffy ''NM'' 99 first_state))) \<and>
   submitEnabled (ui (updateCartQuantity DEFAULT_CONFIG 0 1
     (updateCartQuantity DEFAULT_CONFIG 0 1
       (addToCart DEFAULT_CONFIG luffy ''NM'' 99 first_state)))) \<and>
   itemCount (getCartTotals DEFAULT_CONFIG (updateCartQuantity DEFAULT_CONFIG 0 1
     (updateCartQuantity DEFAULT_CONFIG 0 1
       (addToCart DEFAULT_CONFIG luffy ''NM'' 99 first_state)))) = 101"
proof (intro conjI)
  let ?s1 = "updateCartQuantity DEFAULT_CONFIG 0 1
       (addToCart DEFAULT_CONFIG luffy ''NM'' 99 first_state)"
  show "reachable (updateCartQuantity DEFAULT_CONFIG 0 1 ?s1)"
    by (intro reachable.change reachable.add reachable.first_visit)
       (simp_all add: first_state_def)
  show "itemCount (getCartTotals DEFAULT_CONFIG (updateCartQuantity DEFAULT_CONFIG 0 1 ?s1)) = 101"
    by (simp add: getCartTotals_itemCount over_limit_cart)
  have c1: "cart ?s1 = [(newItem DEFAULT_CONFIG luffy ''NM'' 99)\<lparr>quantity := 100\<rparr>]"
  proof -
    have "findIndex (\<lambda>item. cardId item = card_cardId luffy \<and> condition item = ''NM'')
               (cart first_state) < 0"
      by (simp add: first_state_def)
    then have "cart (addToCart DEFAULT_CONFIG luffy ''NM'' 99 first_state) =
               [newItem DEFAULT_CONFIG luffy ''NM'' 99]"
      by (simp add: addToCart_cart_new first_state_def)
    then show ?thesis by (simp add: updateCartQuantity_cart newItem_quantity)
  qed
  then have "0 \<le> (0::int) \<and> (0::int) < int (length (cart ?s1))" by simp
  from updateCartQuantity_submit [of 0 ?s1 DEFAULT_CONFIG 1] this
  show "submitEnabled (ui (updateCartQuantity DEFAULT_CONFIG 0 1 ?s1))"
    by (simp add: over_limit_cart luffy_NM default_minimum)
qed

section \<open>Saving and loading\<close>

lemma valid_entries_kept:
  "list_all (\<lambda>i. cardId i \<noteq> [] \<and> name i \<noteq> [] \<and> condition i \<noteq> []) c \<Longrightarrow>
     filter isValid (map Some c) = map Some c"
  by (induction c) (simp_all add: isValid_def)

lemma loadCart_after_saveCart:
  assumes "list_all (\<lambda>i. cardId i \<noteq> [] \<and> name i \<noteq> [] \<and> condition i \<noteq> []) (cart s)"
  shows "cart (loadCart ((saveCart s)\<lparr>cart := c0, ui := v\<rparr>)) = cart s"
    and "store (loadCart ((saveCart s)\<lparr>cart := c0, ui := v\<rparr>)) = store (saveCart s)"
  using valid_entries_kept [OF assms]
  by (simp_all add: loadCart_def saveCart_def JSON_stringify_def Let_def comp_def)

lemma loadCart_other_version:
  assumes "tradeInCartVersion (store s) \<noteq> Some CART_VERSION"
  shows "cart (loadCart s) = []"
    and "tradeInCart (store (loadCart s)) = None"
    and "tradeInCartVersion (store (loadCart s)) = Some CART_VERSION"
  using assms by (simp_all add: loadCart_def Let_def)

text \<open>
  C6. A cart whose entries all have a card id, a name and a condition, once saved, is read
  back by \<open>loadCart\<close> as it was, whatever the cart in memory at that moment, and the
  stored cart and version tag stay as saved. When the stored version tag is not the
  current one, \<open>loadCart\<close> leaves an empty cart, removes the stored cart and sets the
  tag to the current version.
\<close>

theorem cart_round_trip:
  "(list_all (\<lambda>i. cardId i \<noteq> [] \<and> name i \<noteq> [] \<and> condition i \<noteq> []) (cart s) \<longrightarrow>
      cart (loadCart ((saveCart s)\<lparr>cart := c0, ui := v\<rparr>)) = cart s \<and>
      tradeInCartVersion (store (loadCart ((saveCart s)\<lparr>cart := c0, ui := v\<rparr>))) =
        Some CART_VERSION \<and>
      tradeInCart (store (loadCart ((saveCart s)\<lparr>cart := c0, ui := v\<rparr>))) =
        Some (JSON_stringify (cart s))) \<and>
   (tradeInCartVersion (store s) \<noteq> Some CART_VERSION \<longrightarrow>
      cart (loadCart s) = [] \<and>
      tradeInCart (store (loadCart s)) = None \<and>
      tradeInCartVersion (store (loadCart s)) = Some CART_VERSION)"
proof (intro conjI impI)
  assume a: "list_all (\<lambda>i. cardId i \<noteq> [] \<and> name i \<noteq> [] \<and> condition i \<noteq> []) (cart s)"
  show "cart (loadCart ((saveCart s)\<lparr>cart := c0, ui := v\<rparr>)) = cart s"
    using a by (rule loadCart_after_saveCart)
  show "tradeInCartVersion (store (loadCart ((saveCart s)\<lparr>cart := c0, ui := v\<rparr>))) =
        Some CART_VERSION"
    unfolding loadCart_after_saveCart(2) [OF a] by (simp add: saveCart_def)
  show "tradeInCart (store (loadCart ((saveCart s)\<lparr>cart := c0, ui := v\<rparr>))) =
        Some (JSON_stringify (cart s))"
    unfolding loadCart_after_saveCart(2) [OF a] by (simp add: saveCart_def)
next
  assume a: "tradeInCartVersion (store s) \<noteq> Some CART_VERSION"
  show "cart (loadCart s) = []" using a by (rule loadCart_other_version)
  show "tradeInCart (store (loadCart s)) = None" using a by (rule loadCart_other_version)
  show "tradeInCartVersion (store (loadCart s)) = Some CART_VERSION"
    using a by (rule loadCart_other_version)
qed

text \<open>A saved cart read back, and a cart stored under version 1.\<close>

theorem cart_round_trip_witness:
  "cart (loadCart ((saveCart (one_item 2 4760))\<lparr>cart := [], ui := blank_view\<rparr>)) =
     cart (one_item 2 4760) \<and>
   cart (loadCart old_store) = [] \<and>
   store (loadCart old_store) = \<lparr> tradeInCart = None, tradeInCartVersion = Some ''2'' \<rparr>"
proof -
  have h1: "list_all (\<lambda>i. cardId i \<noteq> [] \<and> name i \<noteq> [] \<and> condition i \<noteq> [])
              (cart (one_item 2 4760))"
    by (simp add: one_item_def)
  have h2: "tradeInCartVersion (store old_store) \<noteq> Some CART_VERSION"
    by (simp add: old_store_def CART_VERSION_def)
  show ?thesis
    using h1 h2 cart_round_trip [where s = "one_item 2 4760" and ?c0.0 = "[]" and v = blank_view]
      cart_round_trip [where s = old_store and ?c0.0 = "[]" and v = blank_view]
    by (simp add: CART_VERSION_def storage.equality)
qed

section \<open>The checks before a submission\<close>

lemma digits_exactly_empty: "\<not> digits_exactly 6 []" "\<not> digits_exactly 8 []"
  by (simp_all add: digits_exactly_def)

lemma validate_bank_order:
  "fld_payoutType r = ''BANK'' \<Longrightarrow> validate r = spec_first_failure r"
  by (auto simp: validate_def spec_first_failure_def spec_bank_checks_def digits_exactly_empty)

lemma validate_other_payout:
  "fld_payoutType r \<noteq> ''BANK'' \<Longrightarrow>
     validate r = map_option fst (find (\<lambda>chk. \<not> snd chk) (take 3 (spec_bank_checks r)))"
  by (simp add: validate_def spec_bank_checks_def)

lemma bank_only_for_BANK:
  "(bank (submissionData r c) \<noteq> None \<longleftrightarrow> fld_payoutType r = ''BANK'') \<and>
   (fld_payoutType r = ''BANK'' \<longrightarrow>
      bank (submissionData r c) =
        Some \<lparr> bankAccountName = fld_bankAccountName r, bankSortCode = fld_bankSortCode r,
               bankAccountNumber = fld_bankAccountNumber r \<rparr>)"
  by (simp add: submissionData_def)

lemma readForm_bank_form:
  "readForm bank_form =
     \<lparr> fld_email = Some ''customer@example.com'', fld_firstName = ''John'',
       fld_lastName = ''Doe'', fld_payoutType = ''BANK'', fld_shopifyCustomerId = None,
       fld_bankAccountName = ''John Doe'', fld_bankSortCode = ''123456'',
       fld_bankAccountNumber = ''12345678'', fld_phone = ''07700 900123'',
       fld_contactChannel = ''email'' \<rparr>"
  by (simp add: readForm_def bank_form_def or_empty_def trim_def is_space_def)

lemma validate_bank_form: "validate (readForm bank_form) = None"
  by (simp add: readForm_bank_form validate_def or_empty_def digits_exactly_def is_digit_def)

text \<open>
  C7. For a bank transfer the checks run in this order, and the first that fails is the one
  reported: e-mail address present, telephone number present, contact channel chosen,
  account holder present, sort code of exactly six digits, account number of exactly
  eight digits. A failed check stops the submission: nothing is posted, the cart is kept
  and the error banner is shown. When all pass, the body posted holds the bank details if
  and only if the payout type is \<open>BANK\<close>, and the sort code in it is the one typed with
  hyphens and white space taken out, which is also the one that was checked.
\<close>

theorem bank_submission_checks:
  "(fld_payoutType (readForm f) = ''BANK'' \<longrightarrow>
      validate (readForm f) = spec_first_failure (readForm f)) \<and>
   (validate (readForm f) \<noteq> None \<longrightarrow>
      posted (handleSubmit_bank cfg backend f s) = posted s \<and>
      cart (handleSubmit_bank cfg backend f s) = cart s \<and>
      errorBanner (ui (handleSubmit_bank cfg backend f s)) \<noteq> None) \<and>
   (validate (readForm f) = None \<longrightarrow>
      posted (handleSubmit_bank cfg backend f s) =
        submissionData (readForm f) (cart s) # posted s) \<and>
   (bank (submissionData (readForm f) (cart s)) \<noteq> None \<longleftrightarrow>
      fld_payoutType (readForm f) = ''BANK'') \<and>
   (fld_payoutType (readForm f) = ''BANK'' \<longrightarrow>
      map_option bankSortCode (bank (submissionData (readForm f) (cart s))) =
        Some (filter (\<lambda>ch. ch \<noteq> CHR ''-'' \<and> \<not> is_space ch) (or_empty (form_bankSortCode f))))"
proof (intro conjI impI)
  assume "fld_payoutType (readForm f) = ''BANK''"
  then show "validate (readForm f) = spec_first_failure (readForm f)"
    by (rule validate_bank_order)
next
  assume a: "validate (readForm f) \<noteq> None"
  then obtain e where e: "validate (readForm f) = Some e" by blast
  show "posted (handleSubmit_bank cfg backend f s) = posted s"
    using handleSubmit_bank_refused [OF e] by simp
  show "cart (handleSubmit_bank cfg backend f s) = cart s"
    using handleSubmit_bank_refused [OF e] by simp
  show "errorBanner (ui (handleSubmit_bank cfg backend f s)) \<noteq> None"
    using e by (cases e) (simp_all add: handleSubmit_bank_def Let_def showError_def)
next
  assume "validate (readForm f) = None"
  then show "posted (handleSubmit_bank cfg backend f s) =
        submissionData (readForm f) (cart s) # posted s"
    by (rule handleSubmit_bank_posted)
next
  show "(bank (submissionData (readForm f) (cart s)) \<noteq> None) =
        (fld_payoutType (readForm f) = ''BANK'')"
    using bank_only_for_BANK by blast
next
  assume "fld_payoutType (readForm f) = ''BANK''"
  then show "map_option bankSortCode (bank (submissionData (readForm f) (cart s))) =
        Some (filter (\<lambda>ch. ch \<noteq> CHR ''-'' \<and> \<not> is_space ch) (or_empty (form_bankSortCode f)))"
    by (cases "form_bankSortCode f") (simp_all add: submissionData_def readForm_def or_empty_def)
qed

text \<open>
  The sort code \<open>12-34-56\<close> is checked and posted as \<open>123456\<close>; \<open>12-34-5\<close> is
  refused and nothing is posted.
\<close>

theorem bank_submission_checks_witness:
  "validate (readForm bank_form) = None \<and>
   spec_first_failure (readForm bank_form) = None \<and>
   map_option bankSortCode
     (bank (hd (posted (handleSubmit_bank DEFAULT_CONFIG accepting bank_form (one_item 2 4760))))) =
     Some ''123456'' \<and>
   validate (readForm (bank_form\<lparr>form_bankSortCode := Some ''12-34-5''\<rparr>)) = Some Sort_code_invalid \<and>
   posted (handleSubmit_bank DEFAULT_CONFIG accepting
     (bank_form\<lparr>form_bankSortCode := Some ''12-34-5''\<rparr>) (one_item 2 4760)) = []"
proof -
  have v: "validate (readForm bank_form) = None" by (rule validate_bank_form)
  have p: "fld_payoutType (readForm bank_form) = ''BANK''" by (simp add: readForm_bank_form)
  have s: "fld_bankSortCode (readForm bank_form) = ''123456''" by (simp add: readForm_bank_form)
  have w: "validate (readForm (bank_form\<lparr>form_bankSortCode := Some ''12-34-5''\<rparr>)) =
             Some Sort_code_invalid"
    by (simp add: readForm_def bank_form_def validate_def or_empty_def trim_def is_space_def
          digits_exactly_def)
  show ?thesis
    using v p s w
      bank_submission_checks [of bank_form DEFAULT_CONFIG accepting "one_item 2 4760"]
      bank_submission_checks [of "bank_form\<lparr>form_bankSortCode := Some ''12-34-5''\<rparr>"
        DEFAULT_CONFIG accepting "one_item 2 4760"]
    by (simp add: submissionData_def one_item_def first_state_def)
qed

section \<open>A submission and the cart\<close>





section \<open>Tracked items\<close>

lemma displayPrice_nullish: "displayPrice item = nullish (finalPrice item) (quotedPrice item)"
  by (simp add: displayPrice_def nullish_def)

lemma hasAdjustment_iff:
  "hasAdjustment item \<longleftrightarrow> (\<exists>p. finalPrice item = Some p \<and> p \<noteq> quotedPrice item)"
  by (cases "finalPrice item") (simp_all add: hasAdjustment_def)

text \<open>
  C9. Every row of the item list shows the final price where there is one and the quoted
  price otherwise (times the quantity), and it carries the adjustment indicator if and
  only if there is a final price and it differs from the quoted price.
\<close>

theorem tracked_item_display:
  "length (fst (renderItems its)) = length its \<and>
   (\<forall>k < length its.
      row_price (fst (renderItems its) ! k) =
        nullish (finalPrice (its ! k)) (quotedPrice (its ! k)) * trk_quantity (its ! k) \<and>
      displayPrice (its ! k) = nullish (finalPrice (its ! k)) (quotedPrice (its ! k)) \<and>
      (row_adjusted (fst (renderItems its) ! k) \<noteq> None \<longleftrightarrow>
         (\<exists>p. finalPrice (its ! k) = Some p \<and> p \<noteq> quotedPrice (its ! k))) \<and>
      (hasAdjustment (its ! k) \<longleftrightarrow>
         (\<exists>p. finalPrice (its ! k) = Some p \<and> p \<noteq> quotedPrice (its ! k))))"
  by (simp add: renderItems_def renderItem_def displayPrice_nullish hasAdjustment_iff)

text \<open>An item not graded yet, one regraded to a lower price, one confirmed at its quote.\<close>

theorem tracked_item_display_witness:
  "row_price (fst (renderItems [graded_item None, graded_item (Some 4000), graded_item (Some 4760)]) ! 0) = 4760 \<and>
   row_adjusted (fst (renderItems [graded_item None, graded_item (Some 4000), graded_item (Some 4760)]) ! 0) = None \<and>
   row_price (fst (renderItems [graded_item None, graded_item (Some 4000), graded_item (Some 4760)]) ! 1) = 4000 \<and>
   row_adjusted (fst (renderItems [graded_item None, graded_item (Some 4000), graded_item (Some 4760)]) ! 1) \<noteq> None \<and>
   row_adjusted (fst (renderItems [graded_item None, graded_item (Some 4000), graded_item (Some 4760)]) ! 2) = None"
proof -
  let ?its = "[graded_item None, graded_item (Some 4000), graded_item (Some 4760)]"
  note t = tracked_item_display [of ?its, THEN conjunct2, rule_format]
  have "(0::nat) < length ?its" "1 < length ?its" "2 < length ?its" by simp_all
  from t [OF this(1)] t [OF this(2)] t [OF this(3)] show ?thesis
    by (simp add: graded_item_def nullish_def)
qed

section \<open>The price of a new entry\<close>

lemma js_mul_zero: "js_mul 0 m = 0"
  by (simp add: js_mul_def fl64_def)

lemma find_condition:
  "cond \<in> set condition_codes \<Longrightarrow>
     map_option multiplier (find (\<lambda>d. code d = cond) (conditions DEFAULT_CONFIG)) =
       Some (fixed_multiplier cond)"
  by (auto simp: condition_codes_def DEFAULT_CONFIG_def fixed_multiplier_def)

lemma resolvePrice_default:
  assumes "cond \<in> set condition_codes"
  shows "resolvePrice DEFAULT_CONFIG c cond = spec_priceOf c cond"
proof -
  from find_condition [OF assms] obtain d
    where d: "find (\<lambda>d. code d = cond) (conditions DEFAULT_CONFIG) = Some d"
      and m: "multiplier d = fixed_multiplier cond"
    by auto
  show ?thesis
    by (cases "card_prices c")
       (auto simp: resolvePrice_def spec_priceOf_def d m js_mul_zero Math_floor_def
             split: option.splits)
qed



lemma fallback_samples:
  "Math_floor (js_mul 6800 (fixed_multiplier ''NM'')) = 4760"
  "Math_floor (js_mul 6800 (fixed_multiplier ''DMG'')) = 680"
  "Math_floor (js_mul 90 (fixed_multiplier ''NM'')) = 62"
  by code_simp+


text \<open>
  The product is the binary64 product. It can fall just below a whole number that the
  exact product reaches: a market price of 90 pence gives 62 pence for a near-mint card,
  where the exact \<open>90 \<times> 0.70\<close> is 63.
\<close>

lemma fallback_binary_rounding:
  "resolvePrice DEFAULT_CONFIG (unpriced 90) ''NM'' = 62 \<and> \<lfloor>90 * (70 / 100 :: rat)\<rfloor> = 63"
proof -
  have "''NM'' \<in> set condition_codes" by (simp add: condition_codes_def)
  from resolvePrice_default [OF this, of "unpriced 90"] show ?thesis
    by (simp add: spec_priceOf_def unpriced_def fallback_samples)
qed

section \<open>Rounding of the store-credit total\<close>

lemma round_half_even_ge: "of_int m \<le> y \<Longrightarrow> m \<le> round_half_even y"
proof -
  assume "of_int m \<le> y"
  then have "m \<le> \<lfloor>y\<rfloor>" by (simp add: le_floor_iff)
  then show ?thesis by (simp add: round_half_even_def Let_def)
qed

lemma round_half_even_le: "y \<le> of_int m \<Longrightarrow> round_half_even y \<le> m"
proof -
  assume le: "y \<le> of_int m"
  show ?thesis
  proof (cases "y = of_int \<lfloor>y\<rfloor>")
    case True
    then have "y - of_int \<lfloor>y\<rfloor> = 0" by simp
    then have "round_half_even y = \<lfloor>y\<rfloor>" by (simp add: round_half_even_def Let_def)
    moreover have "\<lfloor>y\<rfloor> \<le> m" using le by (simp add: floor_le_iff) 
    ultimately show ?thesis by simp
  next
    case False
    then have "of_int \<lfloor>y\<rfloor> < y" by (metis of_int_floor_le order_less_le)
    then have "of_int \<lfloor>y\<rfloor> < (of_int m :: rat)" using le by simp
    then have "\<lfloor>y\<rfloor> + 1 \<le> m" by simp
    moreover have "round_half_even y \<le> \<lfloor>y\<rfloor> + 1" by (simp add: round_half_even_def Let_def)
    ultimately show ?thesis by simp
  qed
qed

lemma binexp_range:
  assumes "1 \<le> x" and "x < 2 ^ 49"
  shows "0 \<le> binexp x \<and> binexp x \<le> 48"
proof -
  have fl: "1 \<le> \<lfloor>x\<rfloor>" using assms(1) by (simp add: le_floor_iff)
  have "of_int \<lfloor>x\<rfloor> \<le> x" by simp
  then have "(of_int \<lfloor>x\<rfloor> :: rat) < 2 ^ 49" using assms(2) by linarith
  then have "\<lfloor>x\<rfloor> < 2 ^ 49" by (metis of_int_less_numeral_power_cancel_iff)
  then have "bitlen \<lfloor>x\<rfloor> \<le> 49" by (simp add: bitlen_le_iff_power)
  moreover have "1 \<le> bitlen \<lfloor>x\<rfloor>" using fl by (simp add: bitlen_ge_iff_power)
  moreover have "binexp x = bitlen \<lfloor>x\<rfloor> - 1" using assms(1) by (simp add: binexp_def Let_def)
  ultimately show ?thesis by simp
qed

lemma fl64_floor:
  assumes "1 \<le> x" and "x < 2 ^ 49" and "of_int k \<le> x" and "x \<le> of_int k + 15 / 16"
  shows "\<lfloor>fl64 x\<rfloor> = k"
proof -
  define n where "n = nat (52 - binexp x)"
  have e: "0 \<le> binexp x" "binexp x \<le> 48" using binexp_range [OF assms(1,2)] by simp_all
  then have n4: "4 \<le> n" by (simp add: n_def)
  have u: "pow2 (binexp x - 52) = 1 / 2 ^ n" using e by (simp add: pow2_def n_def)
  define R where "R = round_half_even (x * 2 ^ n)"
  have fl: "fl64 x = of_int R / 2 ^ n" using assms(1) by (simp add: fl64_def Let_def u R_def)
  obtain j where j: "n = j + 4" using n4 by (metis add.commute le_Suc_ex)
  have "(of_int (k * 2 ^ n) :: rat) \<le> x * 2 ^ n" using assms(3) by simp
  then have lo: "k * 2 ^ n \<le> R" unfolding R_def by (rule round_half_even_ge)
  have "x * 2 ^ n \<le> (of_int k + 15 / 16) * 2 ^ n" using assms(4) by simp
  also have "\<dots> = of_int (k * 2 ^ n + 15 * 2 ^ j)" by (simp add: j power_add algebra_simps)
  finally have "R \<le> k * 2 ^ n + 15 * 2 ^ j" unfolding R_def by (rule round_half_even_le)
  also have "\<dots> < k * 2 ^ n + 2 ^ n" by (simp add: j power_add)
  finally have hi: "R < (k + 1) * 2 ^ n" by (simp add: algebra_simps)
  have "(of_int k :: rat) \<le> of_int R / 2 ^ n"
  proof -
    have "(of_int (k * 2 ^ n) :: rat) \<le> of_int R" using lo by (simp only: of_int_le_iff)
    then show ?thesis by (simp add: pos_le_divide_eq)
  qed
  moreover have "of_int R / 2 ^ n < (of_int k + 1 :: rat)"
  proof -
    have "(of_int R :: rat) < of_int ((k + 1) * 2 ^ n)" using hi by (simp only: of_int_less_iff)
    then show ?thesis by (simp add: pos_divide_less_eq)
  qed
  ultimately show ?thesis unfolding fl by (simp add: floor_unique)
qed

lemma bonus_factor: "js_add 1 (fl64 (10 / 100)) = 2476979795053773 / 2251799813685248"
  by code_simp

lemma bonus_factor_bounds:
  fixes c :: rat
  assumes "c = 2476979795053773 / 2251799813685248"
  shows "11 / 10 \<le> c" and "c \<le> 11 / 10 + 1 / 2 ^ 53" and "c \<le> 2" and "1 \<le> c"
  using assms by simp_all

lemma store_credit_exact:
  assumes "0 \<le> t" and "t < 2 ^ 48"
  shows "Math_floor (js_mul (of_int t) (js_add 1 (fl64 (10 / 100)))) = (t * 11) div 10"
proof (cases "t = 0")
  case True
  then show ?thesis by (simp add: Math_floor_def js_mul_def fl64_def)
next
  case False
  with assms have t1: "1 \<le> t" by simp
  define c :: rat where "c = 2476979795053773 / 2251799813685248"
  note cb = bonus_factor_bounds [OF c_def]
  define r :: rat where "r = of_int t"
  define k where "k = (t * 11) div 10"
  have r1: "1 \<le> r" using t1 by (simp add: r_def)
  have r2: "r < 2 ^ 48" using assms(2) unfolding r_def
    by (metis of_int_less_numeral_power_cancel_iff)
  have k10: "10 * k \<le> t * 11" "t * 11 \<le> 10 * k + 9" unfolding k_def by presburger+
  have "(of_int (10 * k) :: rat) \<le> of_int (t * 11)" using k10(1) by (simp only: of_int_le_iff)
  then have kr1: "of_int k \<le> r * (11 / 10)" by (simp add: r_def)
  have "(of_int (t * 11) :: rat) \<le> of_int (10 * k + 9)" using k10(2) by (simp only: of_int_le_iff)
  then have kr2: "r * (11 / 10) \<le> of_int k + 9 / 10" by (simp add: r_def)
  have x1: "1 \<le> r * c"
  proof -
    have "1 * 1 \<le> r * c" using r1 cb(4) by (intro mult_mono) simp_all
    then show ?thesis by simp
  qed
  have x2: "r * c < 2 ^ 49"
  proof -
    have "r * c \<le> r * 2" using r1 cb(3) by (intro mult_left_mono) simp_all
    also have "\<dots> < 2 ^ 48 * 2" using r2 by simp
    finally show ?thesis by simp
  qed
  have x3: "of_int k \<le> r * c"
  proof -
    have "r * (11 / 10) \<le> r * c" using r1 cb(1) by (intro mult_left_mono) simp_all
    with kr1 show ?thesis by simp
  qed
  have x4: "r * c \<le> of_int k + 15 / 16"
  proof -
    have "r * c \<le> r * (11 / 10 + 1 / 2 ^ 53)" using r1 cb(2) by (intro mult_left_mono) simp_all
    also have "\<dots> = r * (11 / 10) + r / 2 ^ 53" by (simp add: algebra_simps)
    also have "\<dots> \<le> (of_int k + 9 / 10) + 2 ^ 48 / 2 ^ 53"
      using kr2 r2 by (intro add_mono divide_right_mono) simp_all
    also have "\<dots> \<le> of_int k + 15 / 16" by simp
    finally show ?thesis .
  qed
  have fk: "\<lfloor>fl64 (r * c)\<rfloor> = k" using x1 x2 x3 x4 by (rule fl64_floor)
  have bf: "js_add 1 (fl64 (10 / 100)) = c" unfolding c_def by (rule bonus_factor)
  have "Math_floor (js_mul (of_int t) (js_add 1 (fl64 (10 / 100)))) = \<lfloor>fl64 (r * c)\<rfloor>"
    unfolding Math_floor_def js_mul_def bf r_def ..
  with fk show ?thesis unfolding k_def by (simp only:)
qed

section \<open>The totals of a cart\<close>

text \<open>
  C5. The item count is the sum of the quantities, the subtotal the sum of quantity times
  price, the bank total the subtotal, and the store-credit total the subtotal times one
  plus the bonus rate, rounded down. With the default bonus of \<open>0.10\<close> and a subtotal
  below \<open>2 ^ 48\<close> pence, the binary64 computation gives exactly the whole part of
  eleven tenths of the subtotal.
\<close>

theorem cart_totals:
  "itemCount (getCartTotals cfg s) = sum_list (map quantity (cart s)) \<and>
   subtotal (getCartTotals cfg s) = (\<Sum>i\<leftarrow>cart s. quantity i * pricePerItem i) \<and>
   storeCreditTotal (getCartTotals cfg s) =
     Math_floor (js_mul (of_int (subtotal (getCartTotals cfg s))) (js_add 1 (storeCreditBonus cfg))) \<and>
   bankTotal (getCartTotals cfg s) = subtotal (getCartTotals cfg s) \<and>
   (storeCreditBonus cfg = fl64 (10 / 100) \<and> 0 \<le> subtotal (getCartTotals cfg s) \<and>
    subtotal (getCartTotals cfg s) < 2 ^ 48 \<longrightarrow>
      storeCreditTotal (getCartTotals cfg s) = (subtotal (getCartTotals cfg s) * 11) div 10)"
proof (intro conjI impI)
  show "itemCount (getCartTotals cfg s) = sum_list (map quantity (cart s))"
    by (rule getCartTotals_itemCount)
  show "subtotal (getCartTotals cfg s) = (\<Sum>i\<leftarrow>cart s. quantity i * pricePerItem i)"
    by (rule getCartTotals_subtotal)
  show sc: "storeCreditTotal (getCartTotals cfg s) =
     Math_floor (js_mul (of_int (subtotal (getCartTotals cfg s))) (js_add 1 (storeCreditBonus cfg)))"
    by (simp add: getCartTotals_def Let_def)
  show "bankTotal (getCartTotals cfg s) = subtotal (getCartTotals cfg s)"
    by (simp add: getCartTotals_def Let_def)
  assume a: "storeCreditBonus cfg = fl64 (10 / 100) \<and> 0 \<le> subtotal (getCartTotals cfg s) \<and>
    subtotal (getCartTotals cfg s) < 2 ^ 48"
  then have "Math_floor (js_mul (of_int (subtotal (getCartTotals cfg s))) (js_add 1 (fl64 (10 / 100)))) =
      (subtotal (getCartTotals cfg s) * 11) div 10"
    by (intro store_credit_exact) simp_all
  with a sc show "storeCreditTotal (getCartTotals cfg s) = (subtotal (getCartTotals cfg s) * 11) div 10"
    by (simp only:)
qed

text \<open>Two cards at 4760 pence: subtotal 9520, store credit 10472, bank transfer 9520.\<close>

theorem cart_totals_witness:
  "itemCount (getCartTotals DEFAULT_CONFIG (one_item 2 4760)) = 2 \<and>
   subtotal (getCartTotals DEFAULT_CONFIG (one_item 2 4760)) = 9520 \<and>
   storeCreditTotal (getCartTotals DEFAULT_CONFIG (one_item 2 4760)) = 10472 \<and>
   bankTotal (getCartTotals DEFAULT_CONFIG (one_item 2 4760)) = 9520"
proof -
  have b: "storeCreditBonus DEFAULT_CONFIG = fl64 (10 / 100)"
    unfolding DEFAULT_CONFIG_def by (simp only: config.simps)
  have t: "subtotal (getCartTotals DEFAULT_CONFIG (one_item 2 4760)) = 9520"
    by (simp add: one_item_totals)
  show ?thesis
    using b t cart_totals [of DEFAULT_CONFIG "one_item 2 4760"]
    by (simp add: one_item_def)
qed

end
